theory Spec2Isabelle
  imports Main "HOL-Library.Word" "HOL-Library.AList"
begin

section \<open>AMQP values, tables, deliveries\<close>

text \<open>
  The Go package \<open>rabbitmq\<close> (retry strategies, consumer, producer, connection) is embedded
  function by function. An \<open>amqp.Table\<close> is a Go map from strings to dynamically typed
  values; a type assertion such as \<open>.(int32)\<close> succeeds on exactly one constructor below.
  A table is kept as an association list that is read with \<open>map_of\<close> and written with
  \<open>AList.update\<close>; a nil table is \<open>None\<close>.
\<close>

datatype amqp_value =
    VInt32 "32 word"
  | VInt64 "64 word"
  | VInt "64 word"
  | VString string
  | VBool bool
  | VBytes "8 word list"

type_synonym Table = "(string \<times> amqp_value) list"

record Delivery =
  Headers :: "Table option"
  ContentType :: string
  DeliveryMode :: "8 word"
  Priority :: "8 word"
  DeliveryTag :: "64 word"
  RoutingKey :: string
  Body :: "8 word list"

record Publishing =
  pub_Headers :: "Table option"
  pub_ContentType :: string
  pub_DeliveryMode :: "8 word"
  pub_Priority :: "8 word"
  pub_Expiration :: string
  pub_Body :: "8 word list"

text \<open>\<open>fmt.Errorf("...: %w", err)\<close> wraps an error; \<open>errors.New\<close> creates one; an error
  coming back from the AMQP client or from \<open>json.Marshal\<close> is a \<open>LibError\<close>.\<close>

datatype error =
    LibError string
  | ErrorNew string
  | Wrapped string error
  | CloseErrors "error list"

record RetryMetadata =
  AttemptCount :: int
  OriginalQueue :: string
  FirstFailedAt :: "64 word"

text \<open>\<open>GetRetryMetadata\<close>: the zero metadata for nil headers, otherwise each field is taken
  from its header when the header has the asserted dynamic type. \<open>int(count)\<close> sign-extends
  the 32-bit header into Go's \<open>int\<close>.\<close>

definition GetRetryMetadata :: "Delivery \<Rightarrow> RetryMetadata" where
  "GetRetryMetadata delivery =
     (case Headers delivery of
        None \<Rightarrow> \<lparr>AttemptCount = 0, OriginalQueue = [], FirstFailedAt = 0\<rparr>
      | Some h \<Rightarrow>
          \<lparr>AttemptCount = (case map_of h ''x-retry-count'' of
                             Some (VInt32 count) \<Rightarrow> sint count | _ \<Rightarrow> 0),
           OriginalQueue = (case map_of h ''x-original-queue'' of
                             Some (VString queue) \<Rightarrow> queue | _ \<Rightarrow> []),
           FirstFailedAt = (case map_of h ''x-first-failed-at'' of
                             Some (VInt64 timestamp) \<Rightarrow> timestamp | _ \<Rightarrow> 0)\<rparr>)"

section \<open>Broker operations and the client library\<close>

text \<open>
  Every call on an \<open>*amqp.Channel\<close> and every acknowledgement of a delivery is an event
  of the trace; a channel is identified by a number, a delivery by its tag. \<open>Handle\<close> records
  that the user handler was invoked on a delivery. The client library and the broker behind it
  are a parameter: \<open>respond\<close> maps the events so far and the call to the error it returns.
\<close>

datatype broker_op =
    ExchangeDeclare nat string string bool bool bool bool "Table option"
  | QueueDeclare nat string bool bool bool bool "Table option"
  | QueueBind nat string string string bool "Table option"
  | Publish nat string string bool bool Publishing
  | Consume nat string string bool bool bool bool "Table option"
  | Cancel nat string bool
  | Ack "64 word" bool
  | Nack "64 word" bool bool
  | Handle "64 word"

type_synonym trace = "broker_op list"

record amqp_lib =
  dial :: "string \<Rightarrow> error + nat"
  open_channel :: "nat \<Rightarrow> error + nat"
  set_qos :: "nat \<Rightarrow> int \<Rightarrow> error option"
  close_channel :: "nat \<Rightarrow> error option"
  close_link :: "nat \<Rightarrow> error option"
  respond :: "trace \<Rightarrow> broker_op \<Rightarrow> error option"

definition call :: "amqp_lib \<Rightarrow> broker_op \<Rightarrow> trace \<Rightarrow> error option \<times> trace" where
  "call lib op tr = (respond lib tr op, tr @ [op])"

section \<open>Formatting\<close>

text \<open>\<open>%d\<close> of \<open>fmt.Sprintf\<close>: decimal digits, with a minus sign for a negative number.\<close>

fun dec_nat :: "nat \<Rightarrow> string" where
  "dec_nat n = (if n < 10 then [char_of (48 + n)]
                else dec_nat (n div 10) @ [char_of (48 + n mod 10)])"

declare dec_nat.simps [simp del]

definition Sprintf_d :: "int \<Rightarrow> string" where
  "Sprintf_d i = (if i < 0 then CHR ''-'' # dec_nat (nat (- i)) else dec_nat (nat i))"

section \<open>Retry strategies\<close>

text \<open>
  The three strategy structs, as one closed type. \<open>Multiplier\<close> is a \<open>float64\<close>: its type
  is left open (\<open>'f\<close>), and the one floating-point expression of the package,
  \<open>int(float64(s.InitialDelayMs) * math.Pow(s.Multiplier, float64(attemptCount)))\<close>,
  is the parameter \<open>fp\<close> of \<open>GetDelay\<close>, applied to the initial delay, the multiplier and the
  attempt count.
\<close>

datatype 'f RetryStrategy =
    ImmediateRetryStrategy (MaxAttempts: int)
  | FixedDelayRetryStrategy (MaxAttempts: int) (DelayMs: int)
  | ExponentialBackoffStrategy (MaxAttempts: int) (InitialDelayMs: int) (Multiplier: 'f)
      (MaxDelayMs: int)

fun ShouldRetry :: "'f RetryStrategy \<Rightarrow> Delivery \<Rightarrow> bool" where
  "ShouldRetry (ImmediateRetryStrategy maxAttempts) delivery =
     (AttemptCount (GetRetryMetadata delivery) < maxAttempts)"
| "ShouldRetry (FixedDelayRetryStrategy maxAttempts delayMs) delivery =
     (AttemptCount (GetRetryMetadata delivery) < maxAttempts)"
| "ShouldRetry (ExponentialBackoffStrategy maxAttempts initialDelayMs multiplier maxDelayMs)
       delivery =
     (AttemptCount (GetRetryMetadata delivery) < maxAttempts)"

fun GetDelay :: "(int \<Rightarrow> 'f \<Rightarrow> int \<Rightarrow> int) \<Rightarrow> 'f RetryStrategy \<Rightarrow> int \<Rightarrow> int" where
  "GetDelay fp (ImmediateRetryStrategy maxAttempts) attemptCount = 0"
| "GetDelay fp (FixedDelayRetryStrategy maxAttempts delayMs) attemptCount = delayMs"
| "GetDelay fp (ExponentialBackoffStrategy maxAttempts initialDelayMs multiplier maxDelayMs)
       attemptCount =
     (if fp initialDelayMs multiplier attemptCount > maxDelayMs then maxDelayMs
      else fp initialDelayMs multiplier attemptCount)"

text \<open>The arguments of a wait queue: dead-letter exchange, dead-letter routing key and the
  TTL, converted with \<open>int32(...)\<close>.\<close>

definition wait_queue_args :: "string \<Rightarrow> string \<Rightarrow> int \<Rightarrow> Table" where
  "wait_queue_args dlxName originalQueue ttl =
     [(''x-dead-letter-exchange'', VString dlxName),
      (''x-dead-letter-routing-key'', VString originalQueue),
      (''x-message-ttl'', VInt32 (word_of_int ttl))]"

text \<open>The loop of \<open>ExponentialBackoffStrategy.Setup\<close>:
  \<open>for i := 0; i < s.MaxAttempts; i++\<close>, returning at the first failed declaration.\<close>

function declare_wait_queues ::
  "(int \<Rightarrow> 'f \<Rightarrow> int \<Rightarrow> int) \<Rightarrow> amqp_lib \<Rightarrow> nat \<Rightarrow> 'f RetryStrategy \<Rightarrow> string \<Rightarrow> int \<Rightarrow> trace
     \<Rightarrow> error option \<times> trace" where
  "declare_wait_queues fp lib channel s originalQueue i tr =
     (if i < MaxAttempts s then
        (let waitQueueName = originalQueue @ ''.wait.'' @ Sprintf_d i;
             ttl = GetDelay fp s i
         in case call lib (QueueDeclare channel waitQueueName True False False False
                      (Some (wait_queue_args (originalQueue @ ''.dlx'') originalQueue ttl))) tr of
              (Some err, tr') \<Rightarrow>
                (Some (Wrapped (''failed to declare wait queue '' @ waitQueueName) err), tr')
            | (None, tr') \<Rightarrow> declare_wait_queues fp lib channel s originalQueue (i + 1) tr')
      else (None, tr))"
  by pat_completeness auto
termination
  by (relation "measure (\<lambda>(fp, lib, channel, s, originalQueue, i, tr). nat (MaxAttempts s - i))")
     auto

declare declare_wait_queues.simps [simp del]

fun Setup ::
  "(int \<Rightarrow> 'f \<Rightarrow> int \<Rightarrow> int) \<Rightarrow> amqp_lib \<Rightarrow> 'f RetryStrategy \<Rightarrow> nat \<Rightarrow> string \<Rightarrow> trace
     \<Rightarrow> error option \<times> trace" where
  "Setup fp lib (ImmediateRetryStrategy maxAttempts) channel originalQueue tr = (None, tr)"
| "Setup fp lib (FixedDelayRetryStrategy maxAttempts delayMs) channel originalQueue tr =
     (let waitQueueName = originalQueue @ ''.wait'';
          dlxName = originalQueue @ ''.dlx''
      in case call lib (ExchangeDeclare channel dlxName ''direct'' True False False False None) tr of
           (Some err, tr1) \<Rightarrow> (Some (Wrapped ''failed to declare DLX'' err), tr1)
         | (None, tr1) \<Rightarrow>
       (case call lib (QueueDeclare channel waitQueueName True False False False
                  (Some (wait_queue_args dlxName originalQueue delayMs))) tr1 of
           (Some err, tr2) \<Rightarrow> (Some (Wrapped ''failed to declare wait queue'' err), tr2)
         | (None, tr2) \<Rightarrow>
       (case call lib (QueueBind channel originalQueue originalQueue dlxName False None) tr2 of
           (Some err, tr3) \<Rightarrow>
             (Some (Wrapped ''failed to bind original queue to DLX'' err), tr3)
         | (None, tr3) \<Rightarrow> (None, tr3))))"
| "Setup fp lib (ExponentialBackoffStrategy maxAttempts initialDelayMs multiplier maxDelayMs)
       channel originalQueue tr =
     (let dlxName = originalQueue @ ''.dlx''
      in case call lib (ExchangeDeclare channel dlxName ''direct'' True False False False None) tr of
           (Some err, tr1) \<Rightarrow> (Some (Wrapped ''failed to declare DLX'' err), tr1)
         | (None, tr1) \<Rightarrow>
       (case declare_wait_queues fp lib channel
               (ExponentialBackoffStrategy maxAttempts initialDelayMs multiplier maxDelayMs)
               originalQueue 0 tr1 of
           (Some err, tr2) \<Rightarrow> (Some err, tr2)
         | (None, tr2) \<Rightarrow>
       (case call lib (QueueBind channel originalQueue originalQueue dlxName False None) tr2 of
           (Some err, tr3) \<Rightarrow>
             (Some (Wrapped ''failed to bind original queue to DLX'' err), tr3)
         | (None, tr3) \<Rightarrow> (None, tr3))))"

text \<open>
  The header writes that open each \<open>HandleFailure\<close>: a nil table is replaced by an empty
  one, \<open>x-retry-count\<close> becomes \<open>int32(metadata.AttemptCount + 1)\<close>, \<open>x-original-queue\<close>
  the routing key, and \<open>x-first-failed-at\<close> is written with \<open>time.Now().Unix()\<close> (the
  parameter \<open>now\<close>) when \<open>metadata.FirstFailedAt == 0\<close>. The three methods repeat these
  lines verbatim.
\<close>

definition update_headers :: "64 word \<Rightarrow> Delivery \<Rightarrow> Table" where
  "update_headers now delivery =
     (let metadata = GetRetryMetadata delivery;
          h0 = (case Headers delivery of None \<Rightarrow> [] | Some h \<Rightarrow> h);
          h1 = AList.update ''x-retry-count''
                 (VInt32 (word_of_int (AttemptCount metadata + 1))) h0;
          h2 = AList.update ''x-original-queue'' (VString (RoutingKey delivery)) h1
      in if FirstFailedAt metadata = 0
         then AList.update ''x-first-failed-at'' (VInt64 now) h2
         else h2)"

definition publishing_of :: "Delivery \<Rightarrow> Table \<Rightarrow> Publishing" where
  "publishing_of delivery h =
     \<lparr>pub_Headers = Some h,
      pub_ContentType = ContentType delivery,
      pub_DeliveryMode = DeliveryMode delivery,
      pub_Priority = Priority delivery,
      pub_Expiration = [],
      pub_Body = Body delivery\<rparr>"

text \<open>\<open>HandleFailure\<close> returns its error and the trace; the second component is the header
  table of its own copy of the delivery after the writes.\<close>

fun HandleFailure ::
  "64 word \<Rightarrow> amqp_lib \<Rightarrow> 'f RetryStrategy \<Rightarrow> nat \<Rightarrow> Delivery \<Rightarrow> trace
     \<Rightarrow> error option \<times> Table \<times> trace" where
  "HandleFailure now lib (ImmediateRetryStrategy maxAttempts) channel delivery tr =
     (let h = update_headers now delivery
      in case call lib (Nack (DeliveryTag delivery) False True) tr of
           (r, tr') \<Rightarrow> (r, h, tr'))"
| "HandleFailure now lib (FixedDelayRetryStrategy maxAttempts delayMs) channel delivery tr =
     (let waitQueueName = RoutingKey delivery @ ''.wait'';
          h = update_headers now delivery
      in case call lib (Publish channel [] waitQueueName False False
                          (publishing_of delivery h)) tr of
           (Some err, tr') \<Rightarrow> (Some (Wrapped ''failed to publish to wait queue'' err), h, tr')
         | (None, tr') \<Rightarrow> (None, h, tr'))"
| "HandleFailure now lib
       (ExponentialBackoffStrategy maxAttempts initialDelayMs multiplier maxDelayMs)
       channel delivery tr =
     (let metadata = GetRetryMetadata delivery;
          waitQueueName = RoutingKey delivery @ ''.wait.'' @ Sprintf_d (AttemptCount metadata);
          h = update_headers now delivery
      in case call lib (Publish channel [] waitQueueName False False
                          (publishing_of delivery h)) tr of
           (Some err, tr') \<Rightarrow> (Some (Wrapped ''failed to publish to wait queue'' err), h, tr')
         | (None, tr') \<Rightarrow> (None, h, tr'))"

section \<open>Connection\<close>

record Config =
  URL :: string
  Prefetch :: int

text \<open>The \<open>Connection\<close> struct without its logger and its lock: the link, the default
  channel, the named channels, the consumer tags and the closed flag. A nil pointer is
  \<open>None\<close>.\<close>

record Connection =
  config :: Config
  conn :: "nat option"
  defaultChannel :: "nat option"
  channels :: "(string \<times> nat) list"
  consumerTags :: "(string \<times> string) list"
  closed :: bool

definition NewConnection :: "Config \<Rightarrow> Connection" where
  "NewConnection cfg =
     \<lparr>config = cfg, conn = None, defaultChannel = None, channels = [], consumerTags = [],
      closed = False\<rparr>"

definition Connect :: "amqp_lib \<Rightarrow> Connection \<Rightarrow> error option \<times> Connection" where
  "Connect lib c =
     (if conn c \<noteq> None \<and> defaultChannel c \<noteq> None then (None, c)
      else case dial lib (URL (config c)) of
             Inl err \<Rightarrow> (Some (Wrapped ''failed to connect to RabbitMQ'' err), c)
           | Inr link \<Rightarrow>
         (case open_channel lib link of
             Inl err \<Rightarrow> (Some (Wrapped ''failed to create default channel'' err), c)
           | Inr channel \<Rightarrow>
         (case (if Prefetch (config c) > 0 then set_qos lib channel (Prefetch (config c))
                else None) of
             Some err \<Rightarrow> (Some (Wrapped ''failed to set QoS'' err), c)
           | None \<Rightarrow> (None, c\<lparr>conn := Some link, defaultChannel := Some channel\<rparr>))))"

text \<open>The goroutine started by \<open>setupChannelHandlers\<close>, when the channel's close
  notification arrives: a named channel is deleted from the map.\<close>

definition channel_closed :: "string \<Rightarrow> Connection \<Rightarrow> Connection" where
  "channel_closed channelID c =
     (if channelID \<noteq> ''default'' then c\<lparr>channels := AList.delete channelID (channels c)\<rparr>
      else c)"

definition GetChannel :: "amqp_lib \<Rightarrow> Connection \<Rightarrow> string \<Rightarrow> (error + nat) \<times> Connection" where
  "GetChannel lib c channelID =
     (if channelID = [] then
        (case defaultChannel c of
           None \<Rightarrow> (Inl (ErrorNew ''default channel not initialized. Call Connect() first''), c)
         | Some channel \<Rightarrow> (Inr channel, c))
      else case map_of (channels c) channelID of
             Some channel \<Rightarrow> (Inr channel, c)
           | None \<Rightarrow>
         (case conn c of
             None \<Rightarrow> (Inl (ErrorNew ''connection not initialized. Call Connect() first''), c)
           | Some link \<Rightarrow>
         (case open_channel lib link of
             Inl err \<Rightarrow>
               (Inl (Wrapped (''failed to create named channel '' @ channelID) err), c)
           | Inr channel \<Rightarrow>
         (case (if Prefetch (config c) > 0 then set_qos lib channel (Prefetch (config c))
                else None) of
             Some err \<Rightarrow> (Inl (Wrapped (''failed to set QoS on channel '' @ channelID) err), c)
           | None \<Rightarrow>
               (Inr channel, c\<lparr>channels := AList.update channelID channel (channels c)\<rparr>)))))"

definition RegisterConsumerTag :: "Connection \<Rightarrow> string \<Rightarrow> string \<Rightarrow> Connection" where
  "RegisterConsumerTag c queue consumerTag =
     c\<lparr>consumerTags := AList.update queue consumerTag (consumerTags c)\<rparr>"

definition GetConsumerTag :: "Connection \<Rightarrow> string \<Rightarrow> string \<times> bool" where
  "GetConsumerTag c queue =
     (case map_of (consumerTags c) queue of Some tag \<Rightarrow> (tag, True) | None \<Rightarrow> ([], False))"

definition RemoveConsumerTag :: "Connection \<Rightarrow> string \<Rightarrow> Connection" where
  "RemoveConsumerTag c queue = c\<lparr>consumerTags := AList.delete queue (consumerTags c)\<rparr>"

definition IsConnected :: "Connection \<Rightarrow> bool" where
  "IsConnected c = (conn c \<noteq> None \<and> defaultChannel c \<noteq> None \<and> \<not> closed c)"

text \<open>\<open>Close\<close> collects the errors of closing the named channels (in the order in which the
  map is visited), the default channel and the link.\<close>

definition Close :: "amqp_lib \<Rightarrow> Connection \<Rightarrow> error option \<times> Connection" where
  "Close lib c =
     (if closed c then (None, c)
      else
        (let errs1 = List.map_filter (\<lambda>(channelID, channel). close_channel lib channel)
                       (channels c);
             errs2 = (case defaultChannel c of
                        None \<Rightarrow> []
                      | Some channel \<Rightarrow>
                          (case close_channel lib channel of None \<Rightarrow> [] | Some err \<Rightarrow> [err]));
             errs3 = (case conn c of
                        None \<Rightarrow> []
                      | Some link \<Rightarrow>
                          (case close_link lib link of None \<Rightarrow> [] | Some err \<Rightarrow> [err]));
             errs = errs1 @ errs2 @ errs3;
             c' = c\<lparr>channels := [], defaultChannel := None, conn := None, consumerTags := [],
                    closed := True\<rparr>
         in if length errs > 0 then (Some (CloseErrors errs), c') else (None, c')))"

section \<open>Producer\<close>

record QueueOptions =
  q_Durable :: bool
  q_AutoDelete :: bool
  q_Exclusive :: bool
  q_NoWait :: bool
  q_Args :: "Table option"

definition DefaultQueueOptions :: QueueOptions where
  "DefaultQueueOptions =
     \<lparr>q_Durable = True, q_AutoDelete = False, q_Exclusive = False, q_NoWait = False,
      q_Args = None\<rparr>"

record PublishOptions =
  po_Persistent :: bool
  po_Priority :: "8 word"
  po_Expiration :: string
  po_Headers :: "Table option"
  po_QueueOptions :: "QueueOptions option"
  po_EnableQueueDeclare :: bool
  po_ChannelID :: string

definition DefaultPublishOptions :: PublishOptions where
  "DefaultPublishOptions =
     \<lparr>po_Persistent = True, po_Priority = 0, po_Expiration = [], po_Headers = None,
      po_QueueOptions = None, po_EnableQueueDeclare = False, po_ChannelID = []\<rparr>"

text \<open>The part of \<open>PublishToQueue\<close> after the channel has been obtained: the optional
  declaration, the serialization and the publish. \<open>json.Marshal\<close> is the parameter
  \<open>marshal\<close>; \<open>amqp.Transient\<close> is 1 and \<open>amqp.Persistent\<close> is 2;
  \<open>PublishWithContext\<close> is the \<open>Publish\<close> event.\<close>

definition publish_on_channel ::
  "('p \<Rightarrow> error + 8 word list) \<Rightarrow> amqp_lib \<Rightarrow> nat \<Rightarrow> string \<Rightarrow> 'p \<Rightarrow> PublishOptions
     \<Rightarrow> trace \<Rightarrow> error option \<times> trace" where
  "publish_on_channel marshal lib channel queue payload options tr =
     (case (if po_EnableQueueDeclare options then
              (let qo = (case po_QueueOptions options of
                           None \<Rightarrow> DefaultQueueOptions | Some q \<Rightarrow> q)
               in call lib (QueueDeclare channel queue (q_Durable qo) (q_AutoDelete qo)
                              (q_Exclusive qo) (q_NoWait qo) (q_Args qo)) tr)
            else (None, tr)) of
        (Some err, tr1) \<Rightarrow> (Some (Wrapped (''failed to declare queue '' @ queue) err), tr1)
      | (None, tr1) \<Rightarrow>
     (case marshal payload of
        Inl err \<Rightarrow> (Some (Wrapped ''failed to marshal payload'' err), tr1)
      | Inr message \<Rightarrow>
     (let publishing =
            \<lparr>pub_Headers = po_Headers options,
             pub_ContentType = ''application/json'',
             pub_DeliveryMode = (if po_Persistent options then 2 else 1),
             pub_Priority = po_Priority options,
             pub_Expiration = po_Expiration options,
             pub_Body = message\<rparr>
      in case call lib (Publish channel [] queue False False publishing) tr1 of
           (Some err, tr2) \<Rightarrow>
             (Some (Wrapped (''failed to publish message to queue '' @ queue) err), tr2)
         | (None, tr2) \<Rightarrow> (None, tr2))))"

text \<open>\<open>PublishToQueue\<close>: default options for nil, the channel, then the part above.\<close>

definition PublishToQueue ::
  "('p \<Rightarrow> error + 8 word list) \<Rightarrow> amqp_lib \<Rightarrow> Connection \<Rightarrow> string \<Rightarrow> 'p
     \<Rightarrow> PublishOptions option \<Rightarrow> trace \<Rightarrow> error option \<times> Connection \<times> trace" where
  "PublishToQueue marshal lib c queue payload options tr =
     (let options = (case options of None \<Rightarrow> DefaultPublishOptions | Some opts \<Rightarrow> opts)
      in case GetChannel lib c (po_ChannelID options) of
           (Inl err, c') \<Rightarrow> (Some err, c', tr)
         | (Inr channel, c') \<Rightarrow>
             (case publish_on_channel marshal lib channel queue payload options tr of
                (r, tr') \<Rightarrow> (r, c', tr')))"

section \<open>Consumer\<close>

record 'f ConsumeOptions =
  co_NoAck :: bool
  co_Exclusive :: bool
  co_ConsumerTag :: string
  co_NoWait :: bool
  co_Args :: "Table option"
  co_QueueOptions :: "QueueOptions option"
  co_RetryStrategy :: "'f RetryStrategy option"
  co_EnableDLQ :: bool
  co_ChannelID :: string

type_synonym MessageHandler = "8 word list \<Rightarrow> Delivery \<Rightarrow> error option"

text \<open>\<open>setupDLQ\<close> returns the queue options it was given a pointer to; they are changed
  only when the three declarations succeeded.\<close>

definition setupDLQ ::
  "amqp_lib \<Rightarrow> nat \<Rightarrow> string \<Rightarrow> QueueOptions \<Rightarrow> trace \<Rightarrow> error option \<times> QueueOptions \<times> trace"
  where
  "setupDLQ lib channel originalQueue queueOptions tr =
     (let dlxName = originalQueue @ ''.failed.dlx'';
          dlqName = originalQueue @ ''.failed''
      in case call lib (ExchangeDeclare channel dlxName ''direct'' True False False False None) tr of
           (Some err, tr1) \<Rightarrow>
             (Some (Wrapped ''failed to declare DLX exchange'' err), queueOptions, tr1)
         | (None, tr1) \<Rightarrow>
       (case call lib (QueueDeclare channel dlqName True False False False None) tr1 of
           (Some err, tr2) \<Rightarrow> (Some (Wrapped ''failed to declare DLQ'' err), queueOptions, tr2)
         | (None, tr2) \<Rightarrow>
       (case call lib (QueueBind channel dlqName dlqName dlxName False None) tr2 of
           (Some err, tr3) \<Rightarrow>
             (Some (Wrapped ''failed to bind DLQ to DLX'' err), queueOptions, tr3)
         | (None, tr3) \<Rightarrow>
       (let args0 = (case q_Args queueOptions of None \<Rightarrow> [] | Some a \<Rightarrow> a);
            args1 = AList.update ''x-dead-letter-exchange'' (VString dlxName) args0;
            args2 = AList.update ''x-dead-letter-routing-key'' (VString dlqName) args1
        in (None, queueOptions\<lparr>q_Args := Some args2\<rparr>, tr3)))))"

text \<open>The options that \<open>ConsumeQueue\<close> takes when it is given nil:
  \<open>&ConsumeOptions{NoAck: false, Exclusive: false}\<close>, every other field zero.\<close>

definition zero_ConsumeOptions :: "'f ConsumeOptions" where
  "zero_ConsumeOptions =
     \<lparr>co_NoAck = False, co_Exclusive = False, co_ConsumerTag = [], co_NoWait = False,
      co_Args = None, co_QueueOptions = None, co_RetryStrategy = None, co_EnableDLQ = False,
      co_ChannelID = []\<rparr>"

text \<open>The part of \<open>ConsumeQueue\<close> from the declaration of the queue to the start of
  consumption: the queue is declared with the queue options, the retry strategy (if any) is
  set up, and \<open>channel.Consume\<close> is called; the first error ends it.\<close>

definition declare_and_consume ::
  "(int \<Rightarrow> 'f \<Rightarrow> int \<Rightarrow> int) \<Rightarrow> amqp_lib \<Rightarrow> nat \<Rightarrow> string \<Rightarrow> 'f ConsumeOptions
     \<Rightarrow> QueueOptions \<Rightarrow> trace \<Rightarrow> error option \<times> trace" where
  "declare_and_consume fp lib channel queue options qo tr1 =
     (case call lib (QueueDeclare channel queue (q_Durable qo) (q_AutoDelete qo)
                       (q_Exclusive qo) (q_NoWait qo) (q_Args qo)) tr1 of
        (Some err, tr2) \<Rightarrow> (Some (Wrapped (''failed to declare queue '' @ queue) err), tr2)
      | (None, tr2) \<Rightarrow>
     (case (case co_RetryStrategy options of
              None \<Rightarrow> (None, tr2)
            | Some s \<Rightarrow> Setup fp lib s channel queue tr2) of
        (Some err, tr3) \<Rightarrow>
          (Some (Wrapped (''failed to setup retry strategy for queue '' @ queue) err), tr3)
      | (None, tr3) \<Rightarrow>
     (case call lib (Consume channel queue (co_ConsumerTag options) (co_NoAck options)
                       (co_Exclusive options) False (co_NoWait options) (co_Args options))
             tr3 of
        (Some err, tr4) \<Rightarrow>
          (Some (Wrapped (''failed to start consuming queue '' @ queue) err), tr4)
      | (None, tr4) \<Rightarrow> (None, tr4))))"

text \<open>\<open>ConsumeQueue\<close> up to the start of its goroutine: the channel, the default queue
  options, the dead-letter queue if enabled, then the part above. The options are returned as
  the caller sees them afterwards through the pointer.\<close>

definition ConsumeQueue ::
  "(int \<Rightarrow> 'f \<Rightarrow> int \<Rightarrow> int) \<Rightarrow> amqp_lib \<Rightarrow> Connection \<Rightarrow> string \<Rightarrow> 'f ConsumeOptions option
     \<Rightarrow> trace \<Rightarrow> error option \<times> Connection \<times> 'f ConsumeOptions \<times> trace" where
  "ConsumeQueue fp lib c queue options tr =
     (let options = (case options of None \<Rightarrow> zero_ConsumeOptions | Some opts \<Rightarrow> opts)
      in case GetChannel lib c (co_ChannelID options) of
           (Inl err, c') \<Rightarrow> (Some err, c', options, tr)
         | (Inr channel, c') \<Rightarrow>
       (let qo0 = (case co_QueueOptions options of
                     None \<Rightarrow> DefaultQueueOptions | Some q \<Rightarrow> q)
        in case (if co_EnableDLQ options then setupDLQ lib channel queue qo0 tr
                 else (None, qo0, tr)) of
             (Some err, qo, tr1) \<Rightarrow>
               (Some (Wrapped (''failed to setup DLQ for queue '' @ queue) err), c',
                options\<lparr>co_QueueOptions := Some qo\<rparr>, tr1)
           | (None, qo, tr1) \<Rightarrow>
               (case declare_and_consume fp lib channel queue options qo tr1 of
                  (r, tr') \<Rightarrow> (r, c', options\<lparr>co_QueueOptions := Some qo\<rparr>, tr'))))"

text \<open>\<open>processMessage\<close>, as \<open>ConsumeQueue\<close> calls it (with options that are not nil).
  \<open>now\<close> is the clock reading used if \<open>HandleFailure\<close> stamps the first failure.\<close>

definition processMessage ::
  "amqp_lib \<Rightarrow> MessageHandler \<Rightarrow> Connection \<Rightarrow> 64 word \<Rightarrow> Delivery \<Rightarrow> 'f ConsumeOptions
     \<Rightarrow> trace \<Rightarrow> error option \<times> Connection \<times> trace" where
  "processMessage lib handler c now delivery options tr =
     (case GetChannel lib c (co_ChannelID options) of
        (Inl err, c') \<Rightarrow> (Some err, c', tr)
      | (Inr channel, c') \<Rightarrow>
     (let tr0 = tr @ [Handle (DeliveryTag delivery)]
      in case handler (Body delivery) delivery of
           Some err \<Rightarrow>
             (if co_RetryStrategy options \<noteq> None \<and>
                 ShouldRetry (the (co_RetryStrategy options)) delivery
              then
                (case HandleFailure now lib (the (co_RetryStrategy options)) channel delivery
                        tr0 of
                   (Some retryErr, h, tr1) \<Rightarrow>
                     (case call lib (Nack (DeliveryTag delivery) False False) tr1 of
                        (r, tr2) \<Rightarrow> (r, c', tr2))
                 | (None, h, tr1) \<Rightarrow>
                     (case call lib (Ack (DeliveryTag delivery) False) tr1 of
                        (r, tr2) \<Rightarrow> (r, c', tr2)))
              else
                (case call lib (Nack (DeliveryTag delivery) False False) tr0 of
                   (r, tr1) \<Rightarrow> (r, c', tr1)))
         | None \<Rightarrow>
             (if \<not> co_NoAck options then
                (case call lib (Ack (DeliveryTag delivery) False) tr0 of
                   (r, tr1) \<Rightarrow> (r, c', tr1))
              else (None, c', tr0))))"

text \<open>The goroutine of \<open>ConsumeQueue\<close>: \<open>for msg := range msgs\<close>. An error returned by
  \<open>processMessage\<close> is logged and the loop goes on; \<open>log\<close> collects these errors. Each
  delivery comes with the clock reading at the time it is processed.\<close>

fun consume_loop ::
  "amqp_lib \<Rightarrow> MessageHandler \<Rightarrow> 'f ConsumeOptions \<Rightarrow> (64 word \<times> Delivery) list
     \<Rightarrow> Connection \<Rightarrow> trace \<Rightarrow> error list \<Rightarrow> Connection \<times> trace \<times> error list" where
  "consume_loop lib handler options [] c tr log = (c, tr, log)"
| "consume_loop lib handler options ((now, msg) # msgs) c tr log =
     (case processMessage lib handler c now msg options tr of
        (Some err, c', tr') \<Rightarrow> consume_loop lib handler options msgs c' tr' (log @ [err])
      | (None, c', tr') \<Rightarrow> consume_loop lib handler options msgs c' tr' log)"

text \<open>A consumer from its start to the end of the deliveries \<open>msgs\<close> that the broker sends:
  the goroutine exists only when \<open>ConsumeQueue\<close> got as far as returning nil.\<close>

definition run_consumer ::
  "(int \<Rightarrow> 'f \<Rightarrow> int \<Rightarrow> int) \<Rightarrow> amqp_lib \<Rightarrow> MessageHandler \<Rightarrow> Connection \<Rightarrow> string
     \<Rightarrow> 'f ConsumeOptions option \<Rightarrow> (64 word \<times> Delivery) list \<Rightarrow> trace
     \<Rightarrow> error option \<times> Connection \<times> trace \<times> error list" where
  "run_consumer fp lib handler c queue options msgs tr =
     (case ConsumeQueue fp lib c queue options tr of
        (Some err, c', options', tr') \<Rightarrow> (Some err, c', tr', [])
      | (None, c', options', tr') \<Rightarrow>
          (case consume_loop lib handler options' msgs c' tr' [] of
             (c'', tr'', log) \<Rightarrow> (None, c'', tr'', log)))"

text \<open>\<open>CancelConsumer(conn, consumerTag)\<close>: cancels the consumer with this tag on the
  default channel.\<close>

definition CancelConsumer ::
  "amqp_lib \<Rightarrow> Connection \<Rightarrow> string \<Rightarrow> trace \<Rightarrow> error option \<times> Connection \<times> trace" where
  "CancelConsumer lib c consumerTag tr =
     (case GetChannel lib c [] of
        (Inl err, c') \<Rightarrow> (Some err, c', tr)
      | (Inr channel, c') \<Rightarrow>
     (case call lib (Cancel channel consumerTag False) tr of
        (Some err, tr') \<Rightarrow>
          (Some (Wrapped (''failed to cancel consumer '' @ consumerTag) err), c', tr')
      | (None, tr') \<Rightarrow> (None, c', tr')))"

section \<open>Operations on a connection, and concrete inputs\<close>

text \<open>The operations that can touch a \<open>Connection\<close>: its methods that write a field, the
  close notification of a channel, and the package functions above that are handed the
  connection (\<open>ConsumeQueue\<close> together with the deliveries its goroutine processes).
  \<open>PublishToExchange\<close> and \<open>PublishToQueueRaw\<close> reach the connection as
  \<open>PublishToQueue\<close> does, through \<open>GetChannel\<close> only. Each call carries the behaviour
  of the library during that call.\<close>

datatype ('f, 'p) conn_call =
    CallConnect amqp_lib
  | CallGetChannel amqp_lib string
  | CallRegisterConsumerTag string string
  | CallRemoveConsumerTag string
  | CallClose amqp_lib
  | NotifyChannelClosed string
  | CallPublishToQueue "'p \<Rightarrow> error + 8 word list" amqp_lib string 'p "PublishOptions option"
  | CallConsumeQueue "int \<Rightarrow> 'f \<Rightarrow> int \<Rightarrow> int" amqp_lib MessageHandler string
      "'f ConsumeOptions option" "(64 word \<times> Delivery) list"
  | CallCancelConsumer amqp_lib string

fun exec :: "('f, 'p) conn_call \<Rightarrow> Connection \<Rightarrow> Connection" where
  "exec (CallConnect lib) c = snd (Connect lib c)"
| "exec (CallGetChannel lib channelID) c = snd (GetChannel lib c channelID)"
| "exec (CallRegisterConsumerTag queue consumerTag) c = RegisterConsumerTag c queue consumerTag"
| "exec (CallRemoveConsumerTag queue) c = RemoveConsumerTag c queue"
| "exec (CallClose lib) c = snd (Close lib c)"
| "exec (NotifyChannelClosed channelID) c = channel_closed channelID c"
| "exec (CallPublishToQueue marshal lib queue payload options) c =
     fst (snd (PublishToQueue marshal lib c queue payload options []))"
| "exec (CallConsumeQueue fp lib handler queue options msgs) c =
     fst (snd (run_consumer fp lib handler c queue options msgs []))"
| "exec (CallCancelConsumer lib consumerTag) c = fst (snd (CancelConsumer lib c consumerTag []))"

definition run_calls :: "('f, 'p) conn_call list \<Rightarrow> Connection \<Rightarrow> Connection" where
  "run_calls calls c = fold exec calls c"

text \<open>A library and broker that accept every call.\<close>

definition ok_lib :: amqp_lib where
  "ok_lib =
     \<lparr>dial = (\<lambda>url. Inr 1), open_channel = (\<lambda>link. Inr 2), set_qos = (\<lambda>channel n. None),
      close_channel = (\<lambda>channel. None), close_link = (\<lambda>link. None),
      respond = (\<lambda>tr op. None)\<rparr>"

text \<open>The floating-point expression of \<open>GetDelay\<close> for a multiplier that is a whole number,
  as long as the product stays below \<open>2^53\<close>: every intermediate \<open>float64\<close> is then exact.\<close>

definition exact_product :: "int \<Rightarrow> int \<Rightarrow> int \<Rightarrow> int" where
  "exact_product initialDelayMs multiplier attemptCount =
     initialDelayMs * multiplier ^ nat attemptCount"





text \<open>The TTLs of the queues declared in a trace, in order.\<close>

fun message_ttls :: "trace \<Rightarrow> amqp_value list" where
  "message_ttls [] = []"
| "message_ttls (QueueDeclare channel name durable autoDelete exclusive noWait (Some args) # tr) =
     (case map_of args ''x-message-ttl'' of
        Some v \<Rightarrow> v # message_ttls tr
      | None \<Rightarrow> message_ttls tr)"
| "message_ttls (ev # tr) = message_ttls tr"

text \<open>The messages published in a trace, and a connected connection.\<close>

fun published :: "trace \<Rightarrow> Publishing list" where
  "published [] = []"
| "published (Publish channel exchange key mandatory immediate msg # tr) = msg # published tr"
| "published (ev # tr) = published tr"

definition connected :: Connection where
  "connected =
     \<lparr>config = \<lparr>URL = ''amqp://localhost'', Prefetch = 10\<rparr>, conn = Some 1,
      defaultChannel = Some 2, channels = [], consumerTags = [], closed = False\<rparr>"

definition delivery0 :: Delivery where
  "delivery0 =
     \<lparr>Headers = None, ContentType = ''application/json'', DeliveryMode = 2, Priority = 0,
      DeliveryTag = 1, RoutingKey = ''orders'', Body = []\<rparr>"

text \<open>The tags on which the handler ran, and the queues declared, in a trace.\<close>

fun handled :: "trace \<Rightarrow> 64 word list" where
  "handled [] = []"
| "handled (Handle tag # tr) = tag # handled tr"
| "handled (ev # tr) = handled tr"

fun declared :: "trace \<Rightarrow> string list" where
  "declared [] = []"
| "declared (QueueDeclare channel name durable autoDelete exclusive noWait args # tr) =
     name # declared tr"
| "declared (ev # tr) = declared tr"

text \<open>The dynamic types that \<open>GetRetryMetadata\<close> asserts, and the deliveries whose header
  \<open>key\<close> is not of the asserted type: the table is nil, or has no such entry, or the entry
  has another type.\<close>

fun is_int32 :: "amqp_value \<Rightarrow> bool" where
  "is_int32 (VInt32 x) = True"
| "is_int32 v = False"

fun is_int64 :: "amqp_value \<Rightarrow> bool" where
  "is_int64 (VInt64 x) = True"
| "is_int64 v = False"

fun is_string :: "amqp_value \<Rightarrow> bool" where
  "is_string (VString x) = True"
| "is_string v = False"

definition header_lacks :: "Delivery \<Rightarrow> string \<Rightarrow> (amqp_value \<Rightarrow> bool) \<Rightarrow> bool" where
  "header_lacks delivery key has_type =
     (case Headers delivery of
        None \<Rightarrow> True
      | Some h \<Rightarrow> (case map_of h key of None \<Rightarrow> True | Some v \<Rightarrow> \<not> has_type v))"

text \<open>Consumer options naming a consumer tag, with and without automatic acknowledgement; a
  payload encoder that rejects the payload 0; publish options that ask for the declaration.\<close>

definition options0 :: "int ConsumeOptions" where
  "options0 =
     \<lparr>co_NoAck = False, co_Exclusive = False, co_ConsumerTag = ''worker-1'', co_NoWait = False,
      co_Args = None, co_QueueOptions = None, co_RetryStrategy = None, co_EnableDLQ = False,
      co_ChannelID = []\<rparr>"

definition marshal0 :: "nat \<Rightarrow> error + 8 word list" where
  "marshal0 payload =
     (if payload = 0 then Inl (LibError ''json: unsupported type'') else Inr [123, 125])"

definition declaring :: PublishOptions where
  "declaring = DefaultPublishOptions\<lparr>po_EnableQueueDeclare := True\<rparr>"


definition failing :: MessageHandler where
  "failing body delivery = Some (LibError ''cannot process'')"



definition with_dlq :: "int ConsumeOptions" where
  "with_dlq = options0\<lparr>co_RetryStrategy := Some (ExponentialBackoffStrategy 2 100 2 300000),
                       co_EnableDLQ := True\<rparr>"

text \<open>The calls that start a consumer of queue \<open>orders\<close> with the options \<open>with_dlq\<close>,
  in the order in which the broker receives them.\<close>

definition orders_topology :: trace where
  "orders_topology =
     [ExchangeDeclare 2 ''orders.failed.dlx'' ''direct'' True False False False None,
      QueueDeclare 2 ''orders.failed'' True False False False None,
      QueueBind 2 ''orders.failed'' ''orders.failed'' ''orders.failed.dlx'' False None,
      QueueDeclare 2 ''orders'' True False False False
        (Some [(''x-dead-letter-exchange'', VString ''orders.failed.dlx''),
               (''x-dead-letter-routing-key'', VString ''orders.failed'')]),
      ExchangeDeclare 2 ''orders.dlx'' ''direct'' True False False False None,
      QueueDeclare 2 ''orders.wait.0'' True False False False
        (Some [(''x-dead-letter-exchange'', VString ''orders.dlx''),
               (''x-dead-letter-routing-key'', VString ''orders''),
               (''x-message-ttl'', VInt32 100)]),
      QueueDeclare 2 ''orders.wait.1'' True False False False
        (Some [(''x-dead-letter-exchange'', VString ''orders.dlx''),
               (''x-dead-letter-routing-key'', VString ''orders''),
               (''x-message-ttl'', VInt32 200)]),
      QueueBind 2 ''orders'' ''orders'' ''orders.dlx'' False None,
      Consume 2 ''orders'' ''worker-1'' False False False False None]"

section \<open>Retry decision\<close>

text \<open>
  C1. For each of the three strategies and any \<open>maxAttempts\<close>, \<open>ShouldRetry\<close> is false
  exactly when the attempt count read from the delivery's headers is at least
  \<open>maxAttempts\<close>, and true otherwise; at equality it is false. The attempt count is the
  value of the header \<open>x-retry-count\<close> when it is stored as a 32-bit integer, and 0 when the
  delivery has no such header.
\<close>

theorem ShouldRetry_iff_below_max:
  "ShouldRetry s delivery = (AttemptCount (GetRetryMetadata delivery) < MaxAttempts s) \<and>
   (\<not> ShouldRetry s delivery) = (AttemptCount (GetRetryMetadata delivery) \<ge> MaxAttempts s) \<and>
   (Headers delivery = Some h \<and> map_of h ''x-retry-count'' = Some (VInt32 count) \<longrightarrow>
      ShouldRetry s delivery = (sint count < MaxAttempts s) \<and>
      (\<not> ShouldRetry s delivery) = (MaxAttempts s \<le> sint count) \<and>
      (sint count = MaxAttempts s \<longrightarrow> \<not> ShouldRetry s delivery)) \<and>
   (header_lacks delivery ''x-retry-count'' is_int32 \<longrightarrow>
      ShouldRetry s delivery = (0 < MaxAttempts s) \<and>
      (\<not> ShouldRetry s delivery) = (MaxAttempts s \<le> 0))"
proof -
  have a: "ShouldRetry s delivery = (AttemptCount (GetRetryMetadata delivery) < MaxAttempts s)"
    by (cases s) auto
  have h: "AttemptCount (GetRetryMetadata delivery) = sint count"
    if "Headers delivery = Some h" "map_of h ''x-retry-count'' = Some (VInt32 count)"
    using that by (simp add: GetRetryMetadata_def)
  have z: "AttemptCount (GetRetryMetadata delivery) = 0"
    if "header_lacks delivery ''x-retry-count'' is_int32"
    using that
    by (auto simp: header_lacks_def GetRetryMetadata_def split: option.splits amqp_value.splits)
  from a h z show ?thesis by auto
qed

text \<open>The three strategies with \<open>maxAttempts = 3\<close>: a delivery whose header holds the count 3
  is denied by each of them, one whose header holds 2 is retried, and one without headers is
  retried.\<close>

theorem ShouldRetry_iff_below_max_witness:
  "Headers (delivery0\<lparr>Headers := Some [(''x-retry-count'', VInt32 3)]\<rparr>) =
     Some [(''x-retry-count'', VInt32 3)] \<and>
   map_of [(''x-retry-count'', VInt32 3)] ''x-retry-count'' = Some (VInt32 3) \<and>
   sint (3 :: 32 word) = MaxAttempts (ImmediateRetryStrategy 3 :: int RetryStrategy) \<and>
   \<not> ShouldRetry (ImmediateRetryStrategy 3 :: int RetryStrategy)
       (delivery0\<lparr>Headers := Some [(''x-retry-count'', VInt32 3)]\<rparr>) \<and>
   \<not> ShouldRetry (FixedDelayRetryStrategy 3 500 :: int RetryStrategy)
       (delivery0\<lparr>Headers := Some [(''x-retry-count'', VInt32 3)]\<rparr>) \<and>
   \<not> ShouldRetry (ExponentialBackoffStrategy 3 1000 2 60000 :: int RetryStrategy)
       (delivery0\<lparr>Headers := Some [(''x-retry-count'', VInt32 3)]\<rparr>) \<and>
   map_of [(''x-retry-count'', VInt32 2)] ''x-retry-count'' = Some (VInt32 2) \<and>
   ShouldRetry (ImmediateRetryStrategy 3 :: int RetryStrategy)
       (delivery0\<lparr>Headers := Some [(''x-retry-count'', VInt32 2)]\<rparr>) \<and>
   ShouldRetry (FixedDelayRetryStrategy 3 500 :: int RetryStrategy)
       (delivery0\<lparr>Headers := Some [(''x-retry-count'', VInt32 2)]\<rparr>) \<and>
   ShouldRetry (ExponentialBackoffStrategy 3 1000 2 60000 :: int RetryStrategy)
       (delivery0\<lparr>Headers := Some [(''x-retry-count'', VInt32 2)]\<rparr>) \<and>
   header_lacks delivery0 ''x-retry-count'' is_int32 \<and>
   ShouldRetry (ImmediateRetryStrategy 3 :: int RetryStrategy) delivery0"
proof -
  let ?d3 = "delivery0\<lparr>Headers := Some [(''x-retry-count'', VInt32 3)]\<rparr>"
  let ?d2 = "delivery0\<lparr>Headers := Some [(''x-retry-count'', VInt32 2)]\<rparr>"
  let ?i = "ImmediateRetryStrategy 3 :: int RetryStrategy"
  let ?f = "FixedDelayRetryStrategy 3 500 :: int RetryStrategy"
  let ?e = "ExponentialBackoffStrategy 3 1000 2 60000 :: int RetryStrategy"
  have h3: "Headers ?d3 = Some [(''x-retry-count'', VInt32 3)] \<and>
            map_of [(''x-retry-count'', VInt32 3)] ''x-retry-count'' = Some (VInt32 3)"
    by simp
  have h2: "Headers ?d2 = Some [(''x-retry-count'', VInt32 2)] \<and>
            map_of [(''x-retry-count'', VInt32 2)] ''x-retry-count'' = Some (VInt32 2)"
    by simp
  have l0: "header_lacks delivery0 ''x-retry-count'' is_int32"
    by (simp add: header_lacks_def delivery0_def)
  have s3: "sint (3 :: 32 word) = 3" and s2: "sint (2 :: 32 word) = 2"
    by simp_all
  note t = ShouldRetry_iff_below_max
  from t [where s = "?i" and delivery = "?d3" and h = "[(''x-retry-count'', VInt32 3)]" and count = 3] h3 s3
  have a1: "\<not> ShouldRetry ?i ?d3" by simp
  from t [where s = "?f" and delivery = "?d3" and h = "[(''x-retry-count'', VInt32 3)]" and count = 3] h3 s3
  have a2: "\<not> ShouldRetry ?f ?d3" by simp
  from t [where s = "?e" and delivery = "?d3" and h = "[(''x-retry-count'', VInt32 3)]" and count = 3] h3 s3
  have a3: "\<not> ShouldRetry ?e ?d3" by simp
  from t [where s = "?i" and delivery = "?d2" and h = "[(''x-retry-count'', VInt32 2)]" and count = 2] h2 s2
  have b1: "ShouldRetry ?i ?d2" by simp
  from t [where s = "?f" and delivery = "?d2" and h = "[(''x-retry-count'', VInt32 2)]" and count = 2] h2 s2
  have b2: "ShouldRetry ?f ?d2" by simp
  from t [where s = "?e" and delivery = "?d2" and h = "[(''x-retry-count'', VInt32 2)]" and count = 2] h2 s2
  have b3: "ShouldRetry ?e ?d2" by simp
  from t [where s = "?i" and delivery = delivery0] l0
  have c1: "ShouldRetry ?i delivery0" by simp
  from h3 h2 l0 s3 a1 a2 a3 b1 b2 b3 c1 show ?thesis by simp
qed

text \<open>The boundary on concrete deliveries, with \<open>maxAttempts = 3\<close>: a delivery whose count
  is 3 is denied, one whose count is 2 is retried.\<close>

lemma ShouldRetry_boundary_example:
  "\<not> ShouldRetry (FixedDelayRetryStrategy 3 500)
       \<lparr>Headers = Some [(''x-retry-count'', VInt32 3)], ContentType = [], DeliveryMode = 2,
        Priority = 0, DeliveryTag = 1, RoutingKey = ''q'', Body = []\<rparr> \<and>
   ShouldRetry (FixedDelayRetryStrategy 3 500)
       \<lparr>Headers = Some [(''x-retry-count'', VInt32 2)], ContentType = [], DeliveryMode = 2,
        Priority = 0, DeliveryTag = 1, RoutingKey = ''q'', Body = []\<rparr>"
  by (simp add: GetRetryMetadata_def)

section \<open>Retry metadata\<close>

text \<open>
  C9. When the headers are nil, or \<open>x-retry-count\<close> is absent or not stored as a 32-bit
  signed integer, \<open>GetRetryMetadata\<close> returns \<open>AttemptCount = 0\<close>; \<open>OriginalQueue\<close> is
  empty and \<open>FirstFailedAt\<close> is 0 when their headers are likewise absent or of another type;
  and every strategy with \<open>maxAttempts > 0\<close> then answers \<open>ShouldRetry\<close> with true.
\<close>

theorem GetRetryMetadata_defaults:
  assumes "header_lacks delivery ''x-retry-count'' is_int32"
  shows "AttemptCount (GetRetryMetadata delivery) = 0 \<and>
         (header_lacks delivery ''x-original-queue'' is_string \<longrightarrow>
            OriginalQueue (GetRetryMetadata delivery) = []) \<and>
         (header_lacks delivery ''x-first-failed-at'' is_int64 \<longrightarrow>
            FirstFailedAt (GetRetryMetadata delivery) = 0) \<and>
         (0 < MaxAttempts s \<longrightarrow> ShouldRetry s delivery)"
proof -
  have a: "AttemptCount (GetRetryMetadata delivery) = 0"
    using assms
    by (auto simp: header_lacks_def GetRetryMetadata_def split: option.splits amqp_value.splits)
  have q: "header_lacks delivery ''x-original-queue'' is_string \<Longrightarrow>
            OriginalQueue (GetRetryMetadata delivery) = []"
    by (auto simp: header_lacks_def GetRetryMetadata_def split: option.splits amqp_value.splits)
  have f: "header_lacks delivery ''x-first-failed-at'' is_int64 \<Longrightarrow>
            FirstFailedAt (GetRetryMetadata delivery) = 0"
    by (auto simp: header_lacks_def GetRetryMetadata_def split: option.splits amqp_value.splits)
  have r: "0 < MaxAttempts s \<Longrightarrow> ShouldRetry s delivery"
    using a by (cases s) auto
  from a q f r show ?thesis by blast
qed

text \<open>A retry count stored as a 64-bit integer is not read: the delivery counts as a first
  attempt.\<close>

theorem GetRetryMetadata_defaults_witness:
  "header_lacks (delivery0\<lparr>Headers := Some [(''x-retry-count'', VInt64 5)]\<rparr>)
     ''x-retry-count'' is_int32 \<and>
   header_lacks (delivery0\<lparr>Headers := Some [(''x-retry-count'', VInt64 5)]\<rparr>)
     ''x-original-queue'' is_string \<and>
   header_lacks (delivery0\<lparr>Headers := Some [(''x-retry-count'', VInt64 5)]\<rparr>)
     ''x-first-failed-at'' is_int64 \<and>
   GetRetryMetadata (delivery0\<lparr>Headers := Some [(''x-retry-count'', VInt64 5)]\<rparr>) =
     \<lparr>AttemptCount = 0, OriginalQueue = [], FirstFailedAt = 0\<rparr> \<and>
   (0::int) < MaxAttempts (ImmediateRetryStrategy 1 :: int RetryStrategy) \<and>
   ShouldRetry (ImmediateRetryStrategy 1 :: int RetryStrategy)
     (delivery0\<lparr>Headers := Some [(''x-retry-count'', VInt64 5)]\<rparr>)"
proof -
  let ?d = "delivery0\<lparr>Headers := Some [(''x-retry-count'', VInt64 5)]\<rparr>"
  have h: "header_lacks ?d ''x-retry-count'' is_int32"
    by (simp add: header_lacks_def delivery0_def)
  have h2: "header_lacks ?d ''x-original-queue'' is_string"
    by (simp add: header_lacks_def delivery0_def)
  have h3: "header_lacks ?d ''x-first-failed-at'' is_int64"
    by (simp add: header_lacks_def delivery0_def)
  have m: "(0::int) < MaxAttempts (ImmediateRetryStrategy 1 :: int RetryStrategy)"
    by simp
  from GetRetryMetadata_defaults [OF h, of "ImmediateRetryStrategy 1 :: int RetryStrategy"]
    h h2 h3 m
  show ?thesis by (simp add: RetryMetadata.equality)
qed

section \<open>Headers written by HandleFailure\<close>

text \<open>What the header writes produce, for every delivery: the count is the attempt count plus
  one as a 32-bit integer, the original queue is the routing key, and the first-failure stamp
  is written only when the metadata has none.\<close>

lemma update_headers_retry_count:
  "map_of (update_headers now delivery) ''x-retry-count'' =
     Some (VInt32 (word_of_int (AttemptCount (GetRetryMetadata delivery) + 1)))"
  by (simp add: update_headers_def Let_def update_conv')

lemma update_headers_original_queue:
  "map_of (update_headers now delivery) ''x-original-queue'' =
     Some (VString (RoutingKey delivery))"
  by (simp add: update_headers_def Let_def update_conv')

lemma update_headers_first_failed_at:
  "map_of (update_headers now delivery) ''x-first-failed-at'' =
     (if FirstFailedAt (GetRetryMetadata delivery) = 0 then Some (VInt64 now)
      else Some (VInt64 (FirstFailedAt (GetRetryMetadata delivery))))"
  by (auto simp: update_headers_def Let_def update_conv' GetRetryMetadata_def
           split: option.splits amqp_value.splits)

lemma published_snoc [simp]: "published (tr @ [ev]) = published tr @ published [ev]"
  by (induction tr rule: published.induct) simp_all

text \<open>The two strategies that publish send exactly one message, with the updated table as
  its headers.\<close>

lemma delay_strategies_publish_updated_headers:
  "published (snd (snd (HandleFailure now lib (FixedDelayRetryStrategy m d) channel delivery tr)))
     = published tr @ [publishing_of delivery (update_headers now delivery)]"
  "published (snd (snd (HandleFailure now lib (ExponentialBackoffStrategy m i0 mu mx) channel
       delivery tr)))
     = published tr @ [publishing_of delivery (update_headers now delivery)]"
  by (simp_all add: call_def Let_def split: option.splits)

text \<open>
  C3. \<open>HandleFailure\<close> is to send the failed message on with \<open>x-retry-count\<close> one higher,
  \<open>x-original-queue\<close> set and \<open>x-first-failed-at\<close> written only when unset, for every
  strategy. The immediate strategy, on a first failure of a delivery from queue \<open>orders\<close>:
  the three headers are written into the method's own copy of the delivery, and the only thing
  sent is a negative acknowledgement with requeue, which carries the delivery tag and two flags.
  No message with the new headers leaves the process. The fixed-delay strategy, on the same
  delivery, publishes the message with these headers to \<open>orders.wait\<close>.
\<close>

theorem Immediate_HandleFailure_publishes_nothing:
  "HandleFailure 1700000000 ok_lib (ImmediateRetryStrategy 3 :: int RetryStrategy) 2 delivery0 []
     = (None,
        [(''x-retry-count'', VInt32 1), (''x-original-queue'', VString ''orders''),
         (''x-first-failed-at'', VInt64 1700000000)],
        [Nack 1 False True]) \<and>
   published (snd (snd (HandleFailure 1700000000 ok_lib
       (ImmediateRetryStrategy 3 :: int RetryStrategy) 2 delivery0 []))) = [] \<and>
   HandleFailure 1700000000 ok_lib (FixedDelayRetryStrategy 3 500 :: int RetryStrategy) 2
       delivery0 []
     = (None,
        [(''x-retry-count'', VInt32 1), (''x-original-queue'', VString ''orders''),
         (''x-first-failed-at'', VInt64 1700000000)],
        [Publish 2 [] ''orders.wait'' False False
           \<lparr>pub_Headers =
              Some [(''x-retry-count'', VInt32 1), (''x-original-queue'', VString ''orders''),
                    (''x-first-failed-at'', VInt64 1700000000)],
            pub_ContentType = ''application/json'', pub_DeliveryMode = 2, pub_Priority = 0,
            pub_Expiration = [], pub_Body = []\<rparr>])"
  by (simp add: call_def ok_lib_def delivery0_def update_headers_def GetRetryMetadata_def Let_def
        publishing_of_def)

section \<open>Delay of the exponential strategy\<close>



section \<open>Topology of the exponential strategy\<close>

text \<open>The delay of the exponential strategy is the truncated product, capped at
  \<open>MaxDelayMs\<close>.\<close>

lemma GetDelay_capped:
  "GetDelay fp (ExponentialBackoffStrategy maxAttempts initialDelayMs multiplier maxDelayMs) n =
     min (fp initialDelayMs multiplier n) maxDelayMs"
  by simp

lemma declare_wait_queues_trace:
  "declare_wait_queues fp lib channel s q i tr = (None, tr') \<Longrightarrow>
   tr' = tr @ map (\<lambda>k. QueueDeclare channel (q @ ''.wait.'' @ Sprintf_d k) True False False False
                      (Some (wait_queue_args (q @ ''.dlx'') q (GetDelay fp s k)))) [i..MaxAttempts s - 1]"
proof (induction fp lib channel s q i tr rule: declare_wait_queues.induct)
  case (1 fp lib channel s q i tr)
  show ?case
  proof (cases "i < MaxAttempts s")
    case True
    then have up: "[i..MaxAttempts s - 1] = i # [i + 1..MaxAttempts s - 1]"
      by (simp add: upto_rec1)
    from "1.prems" True show ?thesis
      apply (subst (asm) declare_wait_queues.simps)
      apply (simp add: Let_def call_def split: option.splits)
      apply (drule "1.IH"[OF True refl refl _ refl, rotated -1])
      apply (auto simp: call_def up)
      done
  next
    case False
    with "1.prems" show ?thesis
      by (subst (asm) declare_wait_queues.simps) simp
  qed
qed

text \<open>
  C4, as the code has it. A successful \<open>Setup\<close> of the exponential strategy on queue \<open>Q\<close>
  declares the direct exchange \<open>Q.dlx\<close>, then for each \<open>i\<close> from 0 to \<open>maxAttempts - 1\<close>
  one wait queue \<open>Q.wait.i\<close> whose TTL is \<open>int32(GetDelay(i))\<close> and whose dead-letter
  exchange and routing key are \<open>Q.dlx\<close> and \<open>Q\<close>, then binds \<open>Q\<close> to \<open>Q.dlx\<close> once,
  and does nothing else. That makes \<open>maxAttempts\<close> wait queues; nothing is said about their
  TTLs being different.
\<close>

theorem Exponential_Setup_topology:
  assumes "Setup fp lib (ExponentialBackoffStrategy maxAttempts initialDelayMs multiplier maxDelayMs)
             channel Q tr = (None, tr')"
  shows "tr' = tr @ [ExchangeDeclare channel (Q @ ''.dlx'') ''direct'' True False False False None]
             @ map (\<lambda>i. QueueDeclare channel (Q @ ''.wait.'' @ Sprintf_d i) True False False False
                     (Some [(''x-dead-letter-exchange'', VString (Q @ ''.dlx'')),
                            (''x-dead-letter-routing-key'', VString Q),
                            (''x-message-ttl'', VInt32 (word_of_int (GetDelay fp
                               (ExponentialBackoffStrategy maxAttempts initialDelayMs multiplier maxDelayMs) i)))]))
                 [0..maxAttempts - 1]
             @ [QueueBind channel Q Q (Q @ ''.dlx'') False None] \<and>
         length [0..maxAttempts - 1] = nat maxAttempts"
  using assms
  by (auto simp: Let_def call_def wait_queue_args_def split: option.splits prod.splits
           dest!: declare_wait_queues_trace)

theorem Exponential_Setup_topology_witness:
  "Setup exact_product ok_lib (ExponentialBackoffStrategy 3 1000 2 60000) 2 ''orders'' [] =
     (None,
      [ExchangeDeclare 2 ''orders.dlx'' ''direct'' True False False False None,
       QueueDeclare 2 ''orders.wait.0'' True False False False
         (Some [(''x-dead-letter-exchange'', VString ''orders.dlx''),
                (''x-dead-letter-routing-key'', VString ''orders''),
                (''x-message-ttl'', VInt32 1000)]),
       QueueDeclare 2 ''orders.wait.1'' True False False False
         (Some [(''x-dead-letter-exchange'', VString ''orders.dlx''),
                (''x-dead-letter-routing-key'', VString ''orders''),
                (''x-message-ttl'', VInt32 2000)]),
       QueueDeclare 2 ''orders.wait.2'' True False False False
         (Some [(''x-dead-letter-exchange'', VString ''orders.dlx''),
                (''x-dead-letter-routing-key'', VString ''orders''),
                (''x-message-ttl'', VInt32 4000)]),
       QueueBind 2 ''orders'' ''orders'' ''orders.dlx'' False None]) \<and>
   length [0..(3::int) - 1] = nat 3"
proof -
  have run: "Setup exact_product ok_lib (ExponentialBackoffStrategy 3 1000 2 60000) 2 ''orders'' [] =
     (None, snd (Setup exact_product ok_lib (ExponentialBackoffStrategy 3 1000 2 60000) 2 ''orders'' []))"
    by code_simp
  have ev: "snd (Setup exact_product ok_lib (ExponentialBackoffStrategy 3 1000 2 60000) 2 ''orders'' []) = 
      [ExchangeDeclare 2 ''orders.dlx'' ''direct'' True False False False None,
       QueueDeclare 2 ''orders.wait.0'' True False False False
         (Some [(''x-dead-letter-exchange'', VString ''orders.dlx''),
                (''x-dead-letter-routing-key'', VString ''orders''),
                (''x-message-ttl'', VInt32 1000)]),
       QueueDeclare 2 ''orders.wait.1'' True False False False
         (Some [(''x-dead-letter-exchange'', VString ''orders.dlx''),
                (''x-dead-letter-routing-key'', VString ''orders''),
                (''x-message-ttl'', VInt32 2000)]),
       QueueDeclare 2 ''orders.wait.2'' True False False False
         (Some [(''x-dead-letter-exchange'', VString ''orders.dlx''),
                (''x-dead-letter-routing-key'', VString ''orders''),
                (''x-message-ttl'', VInt32 4000)]),
       QueueBind 2 ''orders'' ''orders'' ''orders.dlx'' False None]"
    by code_simp
  from Exponential_Setup_topology [OF run] run ev show ?thesis by simp
qed


text \<open>
  C4 as stated asks for a distinct TTL per wait queue. With the delays of the specification's
  own example (1000 ms doubling, capped at 60000 ms) and eight attempts, the queues of levels
  6 and 7 both get 60000.
\<close>

theorem wait_queue_ttls_not_distinct:
  "\<not> distinct (message_ttls (snd (Setup exact_product ok_lib
       (ExponentialBackoffStrategy 8 1000 2 60000) 2 ''orders'' [])))"
  by code_simp

section \<open>The closed flag\<close>

lemma GetChannel_closed: "closed (snd (GetChannel lib c channelID)) = closed c"
  by (simp add: GetChannel_def split: option.splits sum.splits)

lemma GetChannel_consumerTags: "consumerTags (snd (GetChannel lib c channelID)) = consumerTags c"
  by (simp add: GetChannel_def split: option.splits sum.splits)

lemma Connect_closed: "closed (snd (Connect lib c)) = closed c"
  by (simp add: Connect_def split: option.splits sum.splits)

lemma Close_closed: "closed (snd (Close lib c))"
  by (simp add: Close_def Let_def)

lemma PublishToQueue_conn:
  "fst (snd (PublishToQueue marshal lib c queue payload options tr)) =
     snd (GetChannel lib c (po_ChannelID (case options of None \<Rightarrow> DefaultPublishOptions | Some opts \<Rightarrow> opts)))"
  by (simp add: PublishToQueue_def Let_def split: prod.splits sum.splits)

lemma CancelConsumer_conn:
  "fst (snd (CancelConsumer lib c consumerTag tr)) = snd (GetChannel lib c [])"
  by (simp add: CancelConsumer_def call_def split: prod.splits sum.splits option.splits)

lemma ConsumeQueue_conn:
  "fst (snd (ConsumeQueue fp lib c queue options tr)) =
     snd (GetChannel lib c
            (co_ChannelID (case options of None \<Rightarrow> zero_ConsumeOptions | Some opts \<Rightarrow> opts)))"
  by (simp add: ConsumeQueue_def Let_def split: prod.splits sum.splits option.splits)

lemma processMessage_conn:
  "fst (snd (processMessage lib handler c now delivery options tr)) =
     snd (GetChannel lib c (co_ChannelID options))"
  by (simp add: processMessage_def Let_def call_def split: prod.splits sum.splits option.splits)

lemma consume_loop_closed:
  "closed (fst (consume_loop lib handler options msgs c tr log)) = closed c"
proof (induction msgs arbitrary: c tr log)
  case Nil
  then show ?case by simp
next
  case (Cons m msgs)
  obtain now msg where m: "m = (now, msg)" by (cases m)
  obtain r c' tr' where p: "processMessage lib handler c now msg options tr = (r, c', tr')"
    by (cases "processMessage lib handler c now msg options tr")
  have "c' = snd (GetChannel lib c (co_ChannelID options))"
    using processMessage_conn [of lib handler c now msg options tr] p by simp
  then have "closed c' = closed c" by (simp add: GetChannel_closed)
  then show ?case using Cons.IH p m by (cases r) simp_all
qed

lemma consume_loop_consumerTags:
  "consumerTags (fst (consume_loop lib handler options msgs c tr log)) = consumerTags c"
proof (induction msgs arbitrary: c tr log)
  case Nil
  then show ?case by simp
next
  case (Cons m msgs)
  obtain now msg where m: "m = (now, msg)" by (cases m)
  obtain r c' tr' where p: "processMessage lib handler c now msg options tr = (r, c', tr')"
    by (cases "processMessage lib handler c now msg options tr")
  have "c' = snd (GetChannel lib c (co_ChannelID options))"
    using processMessage_conn [of lib handler c now msg options tr] p by simp
  then have "consumerTags c' = consumerTags c" by (simp add: GetChannel_consumerTags)
  then show ?case using Cons.IH p m by (cases r) simp_all
qed

lemma run_consumer_closed:
  "closed (fst (snd (run_consumer fp lib handler c queue options msgs tr))) = closed c"
proof -
  obtain r c' o' tr' where q: "ConsumeQueue fp lib c queue options tr = (r, c', o', tr')"
    by (cases "ConsumeQueue fp lib c queue options tr")
  from ConsumeQueue_conn [of fp lib c queue options tr] q
  have cc: "closed c' = closed c" by (simp add: GetChannel_closed)
  show ?thesis
  proof (cases r)
    case None
    obtain c2 tr2 log2 where l: "consume_loop lib handler o' msgs c' tr' [] = (c2, tr2, log2)"
      by (cases "consume_loop lib handler o' msgs c' tr' []")
    from consume_loop_closed [of lib handler o' msgs c' tr' "[]"] l have "closed c2 = closed c'"
      by simp
    with cc q None l show ?thesis by (simp add: run_consumer_def)
  next
    case (Some e)
    with cc q show ?thesis by (simp add: run_consumer_def)
  qed
qed

lemma exec_closed: "closed c \<Longrightarrow> closed (exec op c)"
  by (cases op)
     (simp_all add: Connect_closed GetChannel_closed RegisterConsumerTag_def
        RemoveConsumerTag_def Close_closed channel_closed_def PublishToQueue_conn
        run_consumer_closed CancelConsumer_conn)

lemma run_calls_closed: "closed c \<Longrightarrow> closed (run_calls calls c)"
  unfolding run_calls_def
  by (induction calls arbitrary: c) (simp_all add: exec_closed)

text \<open>
  C10. \<open>Close\<close> leaves the closed flag set, and no operation clears it: after \<open>Close\<close>
  has returned, \<open>IsConnected\<close> is false after any sequence of operations, and a later
  \<open>Connect\<close> that succeeds has a link and a default channel while \<open>IsConnected\<close> still
  answers false.
\<close>

theorem closed_flag_is_permanent:
  "closed (snd (Close lib c)) \<and>
   closed (run_calls calls (snd (Close lib c))) \<and>
   \<not> IsConnected (run_calls calls (snd (Close lib c))) \<and>
   (fst (Connect lib' (snd (Close lib c))) = None \<longrightarrow>
      conn (snd (Connect lib' (snd (Close lib c)))) \<noteq> None \<and>
      defaultChannel (snd (Connect lib' (snd (Close lib c)))) \<noteq> None \<and>
      \<not> IsConnected (snd (Connect lib' (snd (Close lib c)))))"
proof -
  have a: "closed (snd (Close lib c))" by (rule Close_closed)
  then have b: "closed (run_calls calls (snd (Close lib c)))" by (rule run_calls_closed)
  then have c: "\<not> IsConnected (run_calls calls (snd (Close lib c)))"
    by (simp add: IsConnected_def)
  have e: "fst (Connect lib' c1) = None \<Longrightarrow>
      conn (snd (Connect lib' c1)) \<noteq> None \<and> defaultChannel (snd (Connect lib' c1)) \<noteq> None"
    for c1
    by (auto simp: Connect_def split: sum.splits option.splits if_splits)
  have f: "\<not> IsConnected (snd (Connect lib' (snd (Close lib c))))"
    using a by (simp add: IsConnected_def Connect_closed)
  from a b c e [of "snd (Close lib c)"] f show ?thesis by blast
qed

theorem closed_flag_is_permanent_witness:
  "fst (Connect ok_lib (snd (Close ok_lib connected))) = None \<and>
   conn (snd (Connect ok_lib (snd (Close ok_lib connected)))) = Some 1 \<and>
   defaultChannel (snd (Connect ok_lib (snd (Close ok_lib connected)))) = Some 2 \<and>
   \<not> IsConnected (snd (Connect ok_lib (snd (Close ok_lib connected)))) \<and>
   \<not> IsConnected (run_calls
       [CallConnect ok_lib, CallGetChannel ok_lib ''producer'',
        CallRegisterConsumerTag ''orders'' ''worker-1'', CallClose ok_lib, CallConnect ok_lib
          :: (int, nat) conn_call]
       (snd (Close ok_lib connected)))"
proof -
  have s: "fst (Connect ok_lib (snd (Close ok_lib connected))) = None"
    by (simp add: Connect_def Close_def connected_def ok_lib_def Let_def List.map_filter_def)
  have v: "conn (snd (Connect ok_lib (snd (Close ok_lib connected)))) = Some 1 \<and>
           defaultChannel (snd (Connect ok_lib (snd (Close ok_lib connected)))) = Some 2"
    by (simp add: Connect_def Close_def connected_def ok_lib_def Let_def List.map_filter_def)
  from closed_flag_is_permanent [of ok_lib connected
      "[CallConnect ok_lib, CallGetChannel ok_lib ''producer'',
        CallRegisterConsumerTag ''orders'' ''worker-1'', CallClose ok_lib, CallConnect ok_lib
          :: (int, nat) conn_call]" ok_lib] s v
  show ?thesis by simp
qed

section \<open>Consumer tags\<close>

text \<open>
  C7 as stated has \<open>ConsumeQueue\<close> register the consumer tag under the queue. A consumer
  started with the tag \<open>worker-1\<close> on queue \<open>orders\<close> starts consuming, and the registry
  has no entry for \<open>orders\<close> afterwards.
\<close>

theorem ConsumeQueue_registers_no_tag:
  "fst (ConsumeQueue exact_product ok_lib connected ''orders'' (Some options0) []) = None \<and>
   GetConsumerTag (fst (snd (ConsumeQueue exact_product ok_lib connected ''orders''
     (Some options0) []))) ''orders'' = ([], False)"
  by (simp add: ConsumeQueue_def declare_and_consume_def GetChannel_def connected_def
        options0_def ok_lib_def call_def DefaultQueueOptions_def GetConsumerTag_def Let_def)

lemma run_consumer_consumerTags:
  "consumerTags (fst (snd (run_consumer fp lib handler c queue options msgs tr))) = consumerTags c"
proof -
  obtain r c' o' tr' where q: "ConsumeQueue fp lib c queue options tr = (r, c', o', tr')"
    by (cases "ConsumeQueue fp lib c queue options tr")
  from ConsumeQueue_conn [of fp lib c queue options tr] q
  have cc: "consumerTags c' = consumerTags c" by (simp add: GetChannel_consumerTags)
  show ?thesis
  proof (cases r)
    case None
    obtain c2 tr2 log2 where l: "consume_loop lib handler o' msgs c' tr' [] = (c2, tr2, log2)"
      by (cases "consume_loop lib handler o' msgs c' tr' []")
    from consume_loop_consumerTags [of lib handler o' msgs c' tr' "[]"] l
    have "consumerTags c2 = consumerTags c'" by simp
    with cc q None l show ?thesis by (simp add: run_consumer_def)
  next
    case (Some e)
    with cc q show ?thesis by (simp add: run_consumer_def)
  qed
qed

text \<open>
  C7, as the code has it. Neither \<open>ConsumeQueue\<close> nor the processing of the deliveries
  changes the consumer-tag registry. \<open>CancelConsumer\<close> is given the consumer tag itself: with
  a default channel it issues one cancel for that tag on the default channel and returns the
  (wrapped) answer, without reading or changing the registry; without a default channel it
  returns the error of \<open>GetChannel\<close> and issues nothing.
\<close>

theorem consumer_tags_untouched_cancel_by_tag:
  "consumerTags (fst (snd (ConsumeQueue fp lib c queue options tr))) = consumerTags c \<and>
   consumerTags (fst (snd (run_consumer fp lib handler c queue options msgs tr))) = consumerTags c \<and>
   (defaultChannel c = Some channel \<longrightarrow>
      CancelConsumer lib c consumerTag tr =
        (case respond lib tr (Cancel channel consumerTag False) of
           None \<Rightarrow> None
         | Some err \<Rightarrow> Some (Wrapped (''failed to cancel consumer '' @ consumerTag) err),
         c, tr @ [Cancel channel consumerTag False])) \<and>
   (defaultChannel c = None \<longrightarrow>
      CancelConsumer lib c consumerTag tr =
        (Some (ErrorNew ''default channel not initialized. Call Connect() first''), c, tr))"
proof -
  have a: "consumerTags (fst (snd (ConsumeQueue fp lib c queue options tr))) = consumerTags c"
    by (simp add: ConsumeQueue_conn GetChannel_consumerTags)
  have b: "defaultChannel c = Some channel \<Longrightarrow>
      CancelConsumer lib c consumerTag tr =
        (case respond lib tr (Cancel channel consumerTag False) of
           None \<Rightarrow> None
         | Some err \<Rightarrow> Some (Wrapped (''failed to cancel consumer '' @ consumerTag) err),
         c, tr @ [Cancel channel consumerTag False])"
    by (simp add: CancelConsumer_def GetChannel_def call_def split: option.splits)
  have d: "defaultChannel c = None \<Longrightarrow>
      CancelConsumer lib c consumerTag tr =
        (Some (ErrorNew ''default channel not initialized. Call Connect() first''), c, tr)"
    by (simp add: CancelConsumer_def GetChannel_def)
  from a run_consumer_consumerTags [of fp lib handler c queue options msgs tr] b d
  show ?thesis by blast
qed

theorem consumer_tags_untouched_cancel_by_tag_witness:
  "defaultChannel (RegisterConsumerTag connected ''orders'' ''worker-1'') = Some 2 \<and>
   CancelConsumer ok_lib (RegisterConsumerTag connected ''orders'' ''worker-1'') ''other-tag'' [] =
     (None, RegisterConsumerTag connected ''orders'' ''worker-1'', [Cancel 2 ''other-tag'' False]) \<and>
   GetConsumerTag (fst (snd (CancelConsumer ok_lib
       (RegisterConsumerTag connected ''orders'' ''worker-1'') ''other-tag'' []))) ''orders'' =
     (''worker-1'', True) \<and>
   defaultChannel (NewConnection \<lparr>URL = ''amqp://localhost'', Prefetch = 0\<rparr>) = None \<and>
   CancelConsumer ok_lib (NewConnection \<lparr>URL = ''amqp://localhost'', Prefetch = 0\<rparr>) ''worker-1'' [] =
     (Some (ErrorNew ''default channel not initialized. Call Connect() first''),
      NewConnection \<lparr>URL = ''amqp://localhost'', Prefetch = 0\<rparr>, [])"
proof -
  let ?c = "RegisterConsumerTag connected ''orders'' ''worker-1''"
  let ?n = "NewConnection \<lparr>URL = ''amqp://localhost'', Prefetch = 0\<rparr>"
  have h1: "defaultChannel ?c = Some 2"
    by (simp add: RegisterConsumerTag_def connected_def)
  have h2: "defaultChannel ?n = None"
    by (simp add: NewConnection_def)
  have r: "respond ok_lib [] (Cancel 2 ''other-tag'' False) = None"
    by (simp add: ok_lib_def)
  have g: "GetConsumerTag ?c ''orders'' = (''worker-1'', True)"
    by (simp add: GetConsumerTag_def RegisterConsumerTag_def connected_def)
  from consumer_tags_untouched_cancel_by_tag
         [of exact_product ok_lib ?c "''orders''" "Some options0" "[]" "\<lambda>body d. None" "[]" 2
             "''other-tag''"]
       consumer_tags_untouched_cancel_by_tag
         [of exact_product ok_lib ?n "''orders''" "Some options0" "[]" "\<lambda>body d. None" "[]" 2
             "''worker-1''"]
       h1 h2 r g
  show ?thesis by simp
qed

section \<open>Producer: declaration and serialization\<close>

lemma declared_snoc [simp]: "declared (tr @ [ev]) = declared tr @ declared [ev]"
  by (induction tr rule: declared.induct) simp_all

lemma publish_on_channel_nodeclare:
  "\<not> po_EnableQueueDeclare options \<Longrightarrow>
     declared (snd (publish_on_channel marshal lib channel queue payload options tr)) = declared tr"
  by (simp add: publish_on_channel_def Let_def call_def split: sum.splits option.splits)

lemma publish_on_channel_declare:
  "po_EnableQueueDeclare options \<Longrightarrow>
     \<exists>durable autoDelete exclusive noWait args rest.
       snd (publish_on_channel marshal lib channel queue payload options tr) =
         tr @ QueueDeclare channel queue durable autoDelete exclusive noWait args # rest \<and>
       (rest = [] \<or> (\<exists>msg. rest = [Publish channel [] queue False False msg]))"
  by (simp add: publish_on_channel_def Let_def call_def split: sum.splits option.splits)

lemma publish_on_channel_marshal_error:
  "marshal payload = Inl err \<Longrightarrow>
     fst (publish_on_channel marshal lib channel queue payload options tr) \<noteq> None \<and>
     published (snd (publish_on_channel marshal lib channel queue payload options tr)) =
       published tr"
  by (simp add: publish_on_channel_def Let_def call_def split: option.splits)

text \<open>
  C8. \<open>PublishToQueue\<close> declares no queue unless \<open>EnableQueueDeclare\<close> is set, and the
  default options do not set it; when it is set (and the channel is available) the declaration
  of the target queue is the first thing sent, followed by at most the one publish. When
  \<open>json.Marshal\<close> fails the call returns an error and nothing has been published.
\<close>

theorem PublishToQueue_declares_on_request:
  "(\<not> po_EnableQueueDeclare (case options of None \<Rightarrow> DefaultPublishOptions | Some opts \<Rightarrow> opts) \<longrightarrow>
      declared (snd (snd (PublishToQueue marshal lib c queue payload options tr))) = declared tr) \<and>
   (po_EnableQueueDeclare (case options of None \<Rightarrow> DefaultPublishOptions | Some opts \<Rightarrow> opts) \<and>
    fst (GetChannel lib c (po_ChannelID (case options of None \<Rightarrow> DefaultPublishOptions | Some opts \<Rightarrow> opts))) = Inr channel \<longrightarrow>
      (\<exists>durable autoDelete exclusive noWait args rest.
         snd (snd (PublishToQueue marshal lib c queue payload options tr)) =
           tr @ QueueDeclare channel queue durable autoDelete exclusive noWait args # rest \<and>
         (rest = [] \<or> (\<exists>msg. rest = [Publish channel [] queue False False msg])))) \<and>
   (marshal payload = Inl err \<longrightarrow>
      fst (PublishToQueue marshal lib c queue payload options tr) \<noteq> None \<and>
      published (snd (snd (PublishToQueue marshal lib c queue payload options tr))) = published tr) \<and>
   \<not> po_EnableQueueDeclare DefaultPublishOptions"
proof -
  let ?opts = "case options of None \<Rightarrow> DefaultPublishOptions | Some opts \<Rightarrow> opts"
  let ?res = "PublishToQueue marshal lib c queue payload options tr"
  obtain g c1 where g: "GetChannel lib c (po_ChannelID ?opts) = (g, c1)"
    by (cases "GetChannel lib c (po_ChannelID ?opts)")
  have a: "\<not> po_EnableQueueDeclare ?opts \<Longrightarrow> declared (snd (snd ?res)) = declared tr"
    using g by (cases g) (simp_all add: PublishToQueue_def Let_def split_beta
        publish_on_channel_nodeclare)
  have b: "po_EnableQueueDeclare ?opts \<Longrightarrow>
      fst (GetChannel lib c (po_ChannelID ?opts)) = Inr channel \<Longrightarrow>
      (\<exists>durable autoDelete exclusive noWait args rest.
         snd (snd ?res) =
           tr @ QueueDeclare channel queue durable autoDelete exclusive noWait args # rest \<and>
         (rest = [] \<or> (\<exists>msg. rest = [Publish channel [] queue False False msg])))"
    using g publish_on_channel_declare [of ?opts marshal lib channel queue payload tr]
    by (simp add: PublishToQueue_def Let_def split_beta)
  have d: "marshal payload = Inl err \<Longrightarrow>
      fst ?res \<noteq> None \<and> published (snd (snd ?res)) = published tr"
    using g by (cases g) (simp_all add: PublishToQueue_def Let_def split_beta
        publish_on_channel_marshal_error)
  have e: "\<not> po_EnableQueueDeclare DefaultPublishOptions"
    by (simp add: DefaultPublishOptions_def)
  from a b d e show ?thesis by blast
qed

theorem PublishToQueue_declares_on_request_witness:
  "\<not> po_EnableQueueDeclare (case None of None \<Rightarrow> DefaultPublishOptions | Some opts \<Rightarrow> opts) \<and>
   PublishToQueue marshal0 ok_lib connected ''orders'' 1 None [] =
     (None, connected,
      [Publish 2 [] ''orders'' False False
         \<lparr>pub_Headers = None, pub_ContentType = ''application/json'', pub_DeliveryMode = 2,
          pub_Priority = 0, pub_Expiration = [], pub_Body = [123, 125]\<rparr>]) \<and>
   declared (snd (snd (PublishToQueue marshal0 ok_lib connected ''orders'' 1 None []))) = [] \<and>
   po_EnableQueueDeclare (case Some declaring of None \<Rightarrow> DefaultPublishOptions | Some opts \<Rightarrow> opts) \<and>
   fst (GetChannel ok_lib connected (po_ChannelID declaring)) = Inr 2 \<and>
   marshal0 0 = Inl (LibError ''json: unsupported type'') \<and>
   PublishToQueue marshal0 ok_lib connected ''orders'' 0 (Some declaring) [] =
     (Some (Wrapped ''failed to marshal payload'' (LibError ''json: unsupported type'')),
      connected, [QueueDeclare 2 ''orders'' True False False False None]) \<and>
   published (snd (snd (PublishToQueue marshal0 ok_lib connected ''orders'' 0 (Some declaring) [])))
     = []"
proof -
  have h1: "\<not> po_EnableQueueDeclare (case None of None \<Rightarrow> DefaultPublishOptions | Some opts \<Rightarrow> opts)"
    by (simp add: DefaultPublishOptions_def)
  have h2: "po_EnableQueueDeclare (case Some declaring of None \<Rightarrow> DefaultPublishOptions | Some opts \<Rightarrow> opts) \<and>
            fst (GetChannel ok_lib connected (po_ChannelID declaring)) = Inr 2"
    by (simp add: declaring_def DefaultPublishOptions_def GetChannel_def connected_def)
  have h3: "marshal0 0 = Inl (LibError ''json: unsupported type'')"
    by (simp add: marshal0_def)
  have r1: "PublishToQueue marshal0 ok_lib connected ''orders'' 1 None [] =
     (None, connected,
      [Publish 2 [] ''orders'' False False
         \<lparr>pub_Headers = None, pub_ContentType = ''application/json'', pub_DeliveryMode = 2,
          pub_Priority = 0, pub_Expiration = [], pub_Body = [123, 125]\<rparr>])"
    by (simp add: PublishToQueue_def publish_on_channel_def DefaultPublishOptions_def
          GetChannel_def connected_def marshal0_def ok_lib_def call_def Let_def)
  have r2: "PublishToQueue marshal0 ok_lib connected ''orders'' 0 (Some declaring) [] =
     (Some (Wrapped ''failed to marshal payload'' (LibError ''json: unsupported type'')),
      connected, [QueueDeclare 2 ''orders'' True False False False None])"
    by (simp add: PublishToQueue_def publish_on_channel_def declaring_def
          DefaultPublishOptions_def GetChannel_def connected_def marshal0_def ok_lib_def call_def
          Let_def DefaultQueueOptions_def)
  from PublishToQueue_declares_on_request
         [of None marshal0 ok_lib connected "''orders''" 1 "[]" 2 "LibError ''json: unsupported type''"]
       PublishToQueue_declares_on_request
         [of "Some declaring" marshal0 ok_lib connected "''orders''" 0 "[]" 2
             "LibError ''json: unsupported type''"]
       h1 h2 h3 r1 r2
  show ?thesis by simp
qed

section \<open>Routing of a delivery\<close>






section \<open>Order of the consumer start-up\<close>

lemma handled_append [simp]: "handled (xs @ ys) = handled xs @ handled ys"
  by (induction xs rule: handled.induct) simp_all

lemma handled_wait_queues [simp]:
  "handled (map (\<lambda>k. QueueDeclare channel (name k) durable autoDelete exclusive noWait (args k)) ks) = []"
  by (induction ks) simp_all

lemma Setup_success:
  assumes "Setup fp lib s channel queue tr = (None, tr')"
  shows "\<exists>ops. tr' = tr @ ops \<and> handled ops = []"
proof (cases s)
  case (ImmediateRetryStrategy m)
  with assms show ?thesis by simp
next
  case (FixedDelayRetryStrategy m d)
  with assms show ?thesis
    by (auto simp: Let_def call_def split: option.splits)
next
  case (ExponentialBackoffStrategy m i0 mu mx)
  with assms show ?thesis
    by (auto simp: Let_def call_def split: option.splits prod.splits
             dest!: declare_wait_queues_trace)
qed

lemma setupDLQ_success:
  "setupDLQ lib channel queue qo0 tr = (None, qo, tr') \<Longrightarrow>
     tr' = tr @ [ExchangeDeclare channel (queue @ ''.failed.dlx'') ''direct'' True False False False None,
                 QueueDeclare channel (queue @ ''.failed'') True False False False None,
                 QueueBind channel (queue @ ''.failed'') (queue @ ''.failed'') (queue @ ''.failed.dlx'') False None] \<and>
     (\<exists>args. q_Args qo = Some args \<and>
        map_of args ''x-dead-letter-exchange'' = Some (VString (queue @ ''.failed.dlx'')) \<and>
        map_of args ''x-dead-letter-routing-key'' = Some (VString (queue @ ''.failed'')))"
  by (auto simp: setupDLQ_def Let_def call_def update_conv' split: option.splits)

lemma declare_and_consume_success:
  assumes "declare_and_consume fp lib channel queue options qo tr1 = (None, tr')"
  shows "\<exists>setup_ops.
     tr' = tr1 @ [QueueDeclare channel queue (q_Durable qo) (q_AutoDelete qo) (q_Exclusive qo)
                    (q_NoWait qo) (q_Args qo)] @ setup_ops @
             [Consume channel queue (co_ConsumerTag options) (co_NoAck options)
                (co_Exclusive options) False (co_NoWait options) (co_Args options)] \<and>
     handled setup_ops = [] \<and>
     (case co_RetryStrategy options of
        None \<Rightarrow> setup_ops = []
      | Some s \<Rightarrow>
          Setup fp lib s channel queue
            (tr1 @ [QueueDeclare channel queue (q_Durable qo) (q_AutoDelete qo) (q_Exclusive qo)
                      (q_NoWait qo) (q_Args qo)]) =
          (None, tr1 @ [QueueDeclare channel queue (q_Durable qo) (q_AutoDelete qo)
                          (q_Exclusive qo) (q_NoWait qo) (q_Args qo)] @ setup_ops))"
proof -
  let ?qd = "QueueDeclare channel queue (q_Durable qo) (q_AutoDelete qo) (q_Exclusive qo)
               (q_NoWait qo) (q_Args qo)"
  let ?cons = "Consume channel queue (co_ConsumerTag options) (co_NoAck options)
                (co_Exclusive options) False (co_NoWait options) (co_Args options)"
  from assms have q: "respond lib tr1 ?qd = None"
    by (simp add: declare_and_consume_def call_def split: option.splits)
  show ?thesis
  proof (cases "co_RetryStrategy options")
    case None
    with assms q have "tr' = tr1 @ [?qd] @ [] @ [?cons]"
      by (simp add: declare_and_consume_def call_def split: option.splits)
    with None show ?thesis by simp
  next
    case (Some s)
    obtain r tr3 where st: "Setup fp lib s channel queue (tr1 @ [?qd]) = (r, tr3)"
      by (cases "Setup fp lib s channel queue (tr1 @ [?qd])")
    from assms q Some st have r: "r = None"
      by (cases r) (simp_all add: declare_and_consume_def call_def)
    from Setup_success [OF st [unfolded r]] obtain ops
      where ops: "tr3 = (tr1 @ [?qd]) @ ops" "handled ops = []" by blast
    from assms q Some st r have "tr' = tr3 @ [?cons]"
      by (simp add: declare_and_consume_def call_def split: option.splits)
    with ops st r Some show ?thesis by auto
  qed
qed

lemma HandleFailure_extends:
  "\<exists>rest. snd (snd (HandleFailure now lib s channel delivery tr)) = tr @ rest"
  by (cases s) (auto simp: Let_def call_def split: option.splits)

lemma processMessage_extends:
  "\<exists>rest. snd (snd (processMessage lib handler c now delivery options tr)) = tr @ rest"
proof -
  obtain r c' where g: "GetChannel lib c (co_ChannelID options) = (r, c')"
    by (cases "GetChannel lib c (co_ChannelID options)")
  show ?thesis
  proof (cases r)
    case (Inl e)
    with g show ?thesis by (simp add: processMessage_def)
  next
    case (Inr channel)
    obtain e h t where hf: "HandleFailure now lib (the (co_RetryStrategy options)) channel delivery
               (tr @ [Handle (DeliveryTag delivery)]) = (e, h, t)"
      by (metis prod_cases3)
    from HandleFailure_extends [of now lib "the (co_RetryStrategy options)" channel delivery
           "tr @ [Handle (DeliveryTag delivery)]"] hf
    obtain rest where t: "t = tr @ Handle (DeliveryTag delivery) # rest" by auto
    from g Inr hf t show ?thesis
      by (cases "handler (Body delivery) delivery"; cases e)
         (simp_all add: processMessage_def Let_def call_def)
  qed
qed

lemma consume_loop_extends:
  "\<exists>rest. fst (snd (consume_loop lib handler options msgs c tr log)) = tr @ rest"
proof (induction msgs arbitrary: c tr log)
  case Nil
  then show ?case by simp
next
  case (Cons m msgs)
  obtain now msg where m: "m = (now, msg)" by (cases m)
  obtain r c' tr' where p: "processMessage lib handler c now msg options tr = (r, c', tr')"
    by (metis prod_cases3)
  from processMessage_extends [of lib handler c now msg options tr] p
  obtain r1 where r1: "tr' = tr @ r1" by auto
  obtain log' where l: "consume_loop lib handler options (m # msgs) c tr log =
                          consume_loop lib handler options msgs c' tr' log'"
    using p m by (cases r) simp_all
  from Cons.IH [of c' tr' log'] obtain r2
    where "fst (snd (consume_loop lib handler options msgs c' tr' log')) = tr' @ r2" by blast
  with l r1 show ?case by simp
qed

text \<open>
  C6. In every run of \<open>ConsumeQueue\<close> that returns nil, the broker receives, in this order:
  when \<open>EnableDLQ\<close> is set in the options passed (the zero options when nil is passed), the
  three declarations of the dead-letter queue topology; then the declaration of the original
  queue, whose arguments then name \<open>queue.failed.dlx\<close> as dead-letter exchange; then
  everything that the \<open>Setup\<close> of the retry strategy passed in the options sends, started on
  the trace that ends with that declaration and itself successful; then the \<open>Consume\<close>
  call, and nothing after it. The options the caller sees afterwards are the ones passed, with
  the queue options that were declared. The handler is not invoked during \<open>ConsumeQueue\<close>,
  and whatever the consumer does with the deliveries comes after this prefix.
\<close>

theorem ConsumeQueue_order:
  assumes "ConsumeQueue fp lib c queue options tr = (None, c', options', tr')"
  shows "\<exists>channel qo dlq_ops decl setup_ops.
     options' = (case options of None \<Rightarrow> zero_ConsumeOptions | Some opts \<Rightarrow> opts)
                  \<lparr>co_QueueOptions := Some qo\<rparr> \<and>
     co_QueueOptions options' = Some qo \<and>
     decl = QueueDeclare channel queue (q_Durable qo) (q_AutoDelete qo) (q_Exclusive qo)
                 (q_NoWait qo) (q_Args qo) \<and>
     tr' = tr @ dlq_ops @ [decl] @ setup_ops @
             [Consume channel queue (co_ConsumerTag options') (co_NoAck options')
                (co_Exclusive options') False (co_NoWait options') (co_Args options')] \<and>
     (if co_EnableDLQ (case options of None \<Rightarrow> zero_ConsumeOptions | Some opts \<Rightarrow> opts)
      then dlq_ops =
             [ExchangeDeclare channel (queue @ ''.failed.dlx'') ''direct'' True False False False
                None,
              QueueDeclare channel (queue @ ''.failed'') True False False False None,
              QueueBind channel (queue @ ''.failed'') (queue @ ''.failed'')
                (queue @ ''.failed.dlx'') False None] \<and>
           (\<exists>args. q_Args qo = Some args \<and>
              map_of args ''x-dead-letter-exchange'' = Some (VString (queue @ ''.failed.dlx'')))
      else dlq_ops = [] \<and>
           qo = (case co_QueueOptions
                        (case options of None \<Rightarrow> zero_ConsumeOptions | Some opts \<Rightarrow> opts) of
                   None \<Rightarrow> DefaultQueueOptions | Some q \<Rightarrow> q)) \<and>
     (if co_EnableDLQ options'
      then dlq_ops =
             [ExchangeDeclare channel (queue @ ''.failed.dlx'') ''direct'' True False False False
                None,
              QueueDeclare channel (queue @ ''.failed'') True False False False None,
              QueueBind channel (queue @ ''.failed'') (queue @ ''.failed'')
                (queue @ ''.failed.dlx'') False None] \<and>
           (\<exists>args. q_Args qo = Some args \<and>
              map_of args ''x-dead-letter-exchange'' = Some (VString (queue @ ''.failed.dlx'')))
      else dlq_ops = []) \<and>
     (case co_RetryStrategy
             (case options of None \<Rightarrow> zero_ConsumeOptions | Some opts \<Rightarrow> opts) of
        None \<Rightarrow> setup_ops = []
      | Some s \<Rightarrow> Setup fp lib s channel queue (tr @ dlq_ops @ [decl]) =
                   (None, tr @ dlq_ops @ [decl] @ setup_ops)) \<and>
     (case co_RetryStrategy options' of
        None \<Rightarrow> setup_ops = []
      | Some s \<Rightarrow> Setup fp lib s channel queue (tr @ dlq_ops @ [decl]) =
                   (None, tr @ dlq_ops @ [decl] @ setup_ops)) \<and>
     handled tr' = handled tr \<and>
     (\<exists>rest. fst (snd (snd (run_consumer fp lib handler c queue options msgs tr))) = tr' @ rest)"
proof -
  let ?opts = "case options of None \<Rightarrow> zero_ConsumeOptions | Some opts \<Rightarrow> opts"
  let ?qo0 = "case co_QueueOptions ?opts of None \<Rightarrow> DefaultQueueOptions | Some q \<Rightarrow> q"
  obtain g c1 where g: "GetChannel lib c (co_ChannelID ?opts) = (g, c1)"
    by (cases "GetChannel lib c (co_ChannelID ?opts)")
  have "\<exists>channel. g = Inr channel"
  proof (cases g)
    case (Inl e)
    with assms g show ?thesis by (simp add: ConsumeQueue_def Let_def)
  next
    case (Inr channel)
    then show ?thesis by blast
  qed
  then obtain channel where ch: "g = Inr channel" by blast
  obtain r1 qo tr1 where d:
    "(if co_EnableDLQ ?opts then setupDLQ lib channel queue ?qo0 tr else (None, ?qo0, tr)) =
       (r1, qo, tr1)"
    by (metis prod_cases3)
  have r1: "r1 = None"
  proof (cases r1)
    case None
    then show ?thesis .
  next
    case (Some e)
    with assms g ch d show ?thesis by (simp add: ConsumeQueue_def Let_def)
  qed
  obtain r2 tr2 where dc: "declare_and_consume fp lib channel queue ?opts qo tr1 = (r2, tr2)"
    by (cases "declare_and_consume fp lib channel queue ?opts qo tr1")
  from assms g ch d r1 dc
  have res: "r2 = None" "options' = ?opts\<lparr>co_QueueOptions := Some qo\<rparr>" "tr' = tr2"
    by (simp_all add: ConsumeQueue_def Let_def)
  let ?decl = "QueueDeclare channel queue (q_Durable qo) (q_AutoDelete qo) (q_Exclusive qo)
                    (q_NoWait qo) (q_Args qo)"
  let ?dlq = "[ExchangeDeclare channel (queue @ ''.failed.dlx'') ''direct'' True False False
                 False None,
               QueueDeclare channel (queue @ ''.failed'') True False False False None,
               QueueBind channel (queue @ ''.failed'') (queue @ ''.failed'')
                 (queue @ ''.failed.dlx'') False None]"
  define dlq_ops where "dlq_ops = (if co_EnableDLQ ?opts then ?dlq else [])"
  have dl: "tr1 = tr @ dlq_ops"
    and da: "co_EnableDLQ ?opts \<Longrightarrow>
               \<exists>args. q_Args qo = Some args \<and>
                 map_of args ''x-dead-letter-exchange'' = Some (VString (queue @ ''.failed.dlx''))"
    and dq: "\<not> co_EnableDLQ ?opts \<Longrightarrow> qo = ?qo0"
  proof -
    show "tr1 = tr @ dlq_ops"
    proof (cases "co_EnableDLQ ?opts")
      case True
      with d r1 have "setupDLQ lib channel queue ?qo0 tr = (None, qo, tr1)" by simp
      from setupDLQ_success [OF this] True show ?thesis by (simp add: dlq_ops_def)
    next
      case False
      with d show ?thesis by (simp add: dlq_ops_def)
    qed
    show "\<exists>args. q_Args qo = Some args \<and>
            map_of args ''x-dead-letter-exchange'' = Some (VString (queue @ ''.failed.dlx''))"
      if en: "co_EnableDLQ ?opts"
    proof -
      from en d r1 have "setupDLQ lib channel queue ?qo0 tr = (None, qo, tr1)" by simp
      from setupDLQ_success [OF this] show ?thesis by blast
    qed
    show "qo = ?qo0" if "\<not> co_EnableDLQ ?opts"
      using that d by simp
  qed
  from declare_and_consume_success [OF dc [unfolded res(1)]] obtain setup_ops where
    so: "tr2 = tr1 @ [?decl] @ setup_ops @
           [Consume channel queue (co_ConsumerTag ?opts) (co_NoAck ?opts) (co_Exclusive ?opts)
              False (co_NoWait ?opts) (co_Args ?opts)]"
    and sh: "handled setup_ops = []"
    and ss: "(case co_RetryStrategy ?opts of
                None \<Rightarrow> setup_ops = []
              | Some s \<Rightarrow> Setup fp lib s channel queue (tr1 @ [?decl]) =
                           (None, tr1 @ [?decl] @ setup_ops))"
    by blast
  have hd: "handled dlq_ops = []" by (simp add: dlq_ops_def)
  have p0: "options' = ?opts\<lparr>co_QueueOptions := Some qo\<rparr>" by (rule res(2))
  have p1: "co_QueueOptions options' = Some qo" by (simp add: res)
  have p3: "tr' = tr @ dlq_ops @ [?decl] @ setup_ops @
             [Consume channel queue (co_ConsumerTag options') (co_NoAck options')
                (co_Exclusive options') False (co_NoWait options') (co_Args options')]"
    using so dl by (simp add: res)
  have p4: "(if co_EnableDLQ ?opts
      then dlq_ops = ?dlq \<and>
           (\<exists>args. q_Args qo = Some args \<and>
              map_of args ''x-dead-letter-exchange'' = Some (VString (queue @ ''.failed.dlx'')))
      else dlq_ops = [] \<and> qo = ?qo0)"
    using da dq by (simp add: dlq_ops_def)
  have p4': "(if co_EnableDLQ options'
      then dlq_ops = ?dlq \<and>
           (\<exists>args. q_Args qo = Some args \<and>
              map_of args ''x-dead-letter-exchange'' = Some (VString (queue @ ''.failed.dlx'')))
      else dlq_ops = [])"
    using da by (simp add: res dlq_ops_def)
  have p5: "(case co_RetryStrategy ?opts of
        None \<Rightarrow> setup_ops = []
      | Some s \<Rightarrow> Setup fp lib s channel queue (tr @ dlq_ops @ [?decl]) =
                   (None, tr @ dlq_ops @ [?decl] @ setup_ops))"
    using ss dl by (simp split: option.splits)
  have p5': "(case co_RetryStrategy options' of
        None \<Rightarrow> setup_ops = []
      | Some s \<Rightarrow> Setup fp lib s channel queue (tr @ dlq_ops @ [?decl]) =
                   (None, tr @ dlq_ops @ [?decl] @ setup_ops))"
    using ss dl by (simp add: res split: option.splits)
  have p6: "handled tr' = handled tr"
    using so dl sh hd by (simp add: res)
  have p7: "\<exists>rest. fst (snd (snd (run_consumer fp lib handler c queue options msgs tr))) =
              tr' @ rest"
  proof -
    obtain c2 t2 l2 where l: "consume_loop lib handler options' msgs c' tr' [] = (c2, t2, l2)"
      by (metis prod_cases3)
    from consume_loop_extends [of lib handler options' msgs c' tr' "[]"] l
    obtain rest where "t2 = tr' @ rest" by auto
    with assms l show ?thesis by (simp add: run_consumer_def)
  qed
  show ?thesis
    apply (rule exI [of _ channel], rule exI [of _ qo], rule exI [of _ dlq_ops])
    apply (rule exI [of _ ?decl], rule exI [of _ setup_ops])
    apply (intro conjI)
             apply (rule p0)
            apply (rule p1)
           apply (rule refl)
          apply (rule p3)
         apply (rule p4)
        apply (rule p4')
       apply (rule p5)
      apply (rule p5')
     apply (rule p6)
    apply (rule p7)
    done
qed

theorem ConsumeQueue_order_witness:
  "ConsumeQueue exact_product ok_lib connected ''orders'' (Some with_dlq) [] =
     (None, connected,
      with_dlq\<lparr>co_QueueOptions := Some (DefaultQueueOptions\<lparr>q_Args :=
        Some [(''x-dead-letter-exchange'', VString ''orders.failed.dlx''),
              (''x-dead-letter-routing-key'', VString ''orders.failed'')]\<rparr>)\<rparr>,
      orders_topology) \<and>
   co_EnableDLQ with_dlq \<and>
   co_RetryStrategy with_dlq = Some (ExponentialBackoffStrategy 2 100 2 300000) \<and>
   handled orders_topology = handled [] \<and>
   (\<exists>rest. fst (snd (snd (run_consumer exact_product ok_lib failing connected ''orders''
        (Some with_dlq) [(1700000000, delivery0)] []))) = orders_topology @ rest)"
proof -
  have run: "ConsumeQueue exact_product ok_lib connected ''orders'' (Some with_dlq) [] =
     (None, connected,
      with_dlq\<lparr>co_QueueOptions := Some (DefaultQueueOptions\<lparr>q_Args :=
        Some [(''x-dead-letter-exchange'', VString ''orders.failed.dlx''),
              (''x-dead-letter-routing-key'', VString ''orders.failed'')]\<rparr>)\<rparr>,
      orders_topology)"
    by code_simp
  have o: "co_EnableDLQ with_dlq \<and>
           co_RetryStrategy with_dlq = Some (ExponentialBackoffStrategy 2 100 2 300000)"
    by (simp add: with_dlq_def options0_def)
  from ConsumeQueue_order [OF run, where handler = failing and
         msgs = "[(1700000000, delivery0)]"]
  have "handled orders_topology = handled [] \<and>
   (\<exists>rest. fst (snd (snd (run_consumer exact_product ok_lib failing connected ''orders''
        (Some with_dlq) [(1700000000, delivery0)] []))) = orders_topology @ rest)"
    by blast
  with run o show ?thesis by simp
qed

end
